theory Spec2Isabelle
  imports Complex_Main "HOL-Library.Log_Nat"
begin

section \<open>JavaScript numbers and strings\<close>

text \<open>
  The client is written in JavaScript. A JavaScript number is an IEEE binary64 value: a
  finite one is a rational, so it is modelled by its exact value; \<open>NaN\<close> and the two
  infinities are separate constructors. Negative zero is identified with zero.
  Every arithmetic operation of the language computes the exact result and rounds it to
  the nearest binary64 value, ties to the even significand: that is \<open>rnd\<close>. The
  significand has 53 bits, the least exponent of a unit in the last place is \<open>-1074\<close>,
  and a rounded value whose binary exponent is 1024 or more is an infinity.
\<close>

datatype number = Num rat | NaN | PosInf | NegInf

definition pow2 :: "int \<Rightarrow> rat" where
  "pow2 e = (if 0 \<le> e then 2 ^ nat e else 1 / 2 ^ nat (- e))"

text \<open>\<open>ilog2 a\<close> is the binary exponent of a positive rational: \<open>2^e \<le> a < 2^(e+1)\<close>.\<close>

definition ilog2 :: "rat \<Rightarrow> int" where
  "ilog2 a = (let (p, q) = quotient_of a; e0 = bitlen p - bitlen q
              in if a < pow2 e0 then e0 - 1 else e0)"

definition rnd :: "rat \<Rightarrow> number" where
  "rnd x = (if x = 0 then Num 0 else
     let a = \<bar>x\<bar>;
         q = max (ilog2 a - 52) (- 1074);
         t = a / pow2 q;
         f = \<lfloor>t\<rfloor>;
         r = t - of_int f;
         m = (if r < 1 / 2 then f else if 1 / 2 < r then f + 1 else if even f then f else f + 1);
         v = of_int m * pow2 q
     in if v \<noteq> 0 \<and> 1024 \<le> ilog2 v then (if x < 0 then NegInf else PosInf)
        else Num (if x < 0 then - v else v))"

text \<open>The operators \<open>+\<close>, \<open>*\<close>, \<open>/\<close> and \<open>>\<close> of the language on numbers.\<close>

fun fadd :: "number \<Rightarrow> number \<Rightarrow> number" where
  "fadd (Num a) (Num b) = rnd (a + b)"
| "fadd NaN _ = NaN"
| "fadd _ NaN = NaN"
| "fadd PosInf NegInf = NaN"
| "fadd NegInf PosInf = NaN"
| "fadd PosInf _ = PosInf"
| "fadd NegInf _ = NegInf"
| "fadd _ PosInf = PosInf"
| "fadd _ NegInf = NegInf"

fun fneg :: "number \<Rightarrow> number" where
  "fneg (Num a) = Num (- a)"
| "fneg NaN = NaN"
| "fneg PosInf = NegInf"
| "fneg NegInf = PosInf"

fun fmul :: "number \<Rightarrow> number \<Rightarrow> number" where
  "fmul (Num a) (Num b) = rnd (a * b)"
| "fmul NaN _ = NaN"
| "fmul _ NaN = NaN"
| "fmul PosInf (Num b) = (if b = 0 then NaN else if 0 < b then PosInf else NegInf)"
| "fmul NegInf (Num b) = (if b = 0 then NaN else if 0 < b then NegInf else PosInf)"
| "fmul (Num a) PosInf = (if a = 0 then NaN else if 0 < a then PosInf else NegInf)"
| "fmul (Num a) NegInf = (if a = 0 then NaN else if 0 < a then NegInf else PosInf)"
| "fmul PosInf PosInf = PosInf"
| "fmul NegInf NegInf = PosInf"
| "fmul PosInf NegInf = NegInf"
| "fmul NegInf PosInf = NegInf"

fun fdiv :: "number \<Rightarrow> number \<Rightarrow> number" where
  "fdiv (Num a) (Num b) =
     (if b = 0 then (if a = 0 then NaN else if 0 < a then PosInf else NegInf)
      else rnd (a / b))"
| "fdiv NaN _ = NaN"
| "fdiv _ NaN = NaN"
| "fdiv (Num a) PosInf = Num 0"
| "fdiv (Num a) NegInf = Num 0"
| "fdiv PosInf (Num b) = (if 0 \<le> b then PosInf else NegInf)"
| "fdiv NegInf (Num b) = (if 0 \<le> b then NegInf else PosInf)"
| "fdiv PosInf PosInf = NaN"
| "fdiv PosInf NegInf = NaN"
| "fdiv NegInf PosInf = NaN"
| "fdiv NegInf NegInf = NaN"

fun js_gt :: "number \<Rightarrow> number \<Rightarrow> bool" where
  "js_gt (Num a) (Num b) = (b < a)"
| "js_gt NaN _ = False"
| "js_gt _ NaN = False"
| "js_gt PosInf PosInf = False"
| "js_gt PosInf _ = True"
| "js_gt NegInf _ = False"
| "js_gt (Num a) NegInf = True"
| "js_gt (Num a) PosInf = False"

subsection \<open>Decimal digits\<close>

definition digit :: "nat \<Rightarrow> char" where
  "digit d = ''0123456789'' ! d"

fun show_nat :: "nat \<Rightarrow> string" where
  "show_nat n = (if n < 10 then [digit n] else show_nat (n div 10) @ [digit (n mod 10)])"

declare show_nat.simps [simp del]

text \<open>
  \<open>Number::toString\<close>. The language prints the shortest digit string that reads back
  as the same binary64 value. For an integer below \<open>2^53\<close> in magnitude these are the
  decimal digits of the integer: its neighbours are at a distance of 1 at most, so no
  other integer reads back as it. For the other finite values the algorithm is not part
  of the client and is the parameter \<open>sh\<close> of everything that prints a number.
\<close>

definition numberToString :: "(rat \<Rightarrow> string) \<Rightarrow> number \<Rightarrow> string" where
  "numberToString sh v =
     (case v of
        NaN \<Rightarrow> ''NaN''
      | PosInf \<Rightarrow> ''Infinity''
      | NegInf \<Rightarrow> ''-Infinity''
      | Num x \<Rightarrow>
          if of_int \<lfloor>x\<rfloor> = x \<and> \<bar>x\<bar> < 2 ^ 53
          then (if x < 0 then ''-'' else '''') @ show_nat (nat \<bar>\<lfloor>x\<rfloor>\<bar>)
          else sh x)"

text \<open>
  \<open>Number.prototype.toFixed(f)\<close>: the integer \<open>n\<close> nearest to \<open>x * 10^f\<close>, the larger
  one of two, printed with \<open>f\<close> digits after the point; the sign is split off first.
\<close>

definition toFixed :: "(rat \<Rightarrow> string) \<Rightarrow> nat \<Rightarrow> number \<Rightarrow> string" where
  "toFixed sh f v =
     (case v of
        NaN \<Rightarrow> ''NaN''
      | PosInf \<Rightarrow> ''Infinity''
      | NegInf \<Rightarrow> ''-Infinity''
      | Num x \<Rightarrow>
          (let s = (if x < 0 then ''-'' else ''''); a = \<bar>x\<bar>
           in if 10 ^ 21 \<le> a then s @ numberToString sh (Num a)
              else
                let n = nat \<lfloor>a * 10 ^ f + 1 / 2\<rfloor>;
                    m = show_nat n;
                    z = (if length m \<le> f then replicate (f + 1 - length m) (CHR ''0'') @ m else m);
                    k = length z
                in s @ (if f = 0 then m else take (k - f) z @ ''.'' @ drop (k - f) z)))"

text \<open>
  Rounding to two decimals, as the specification words it: the number of hundredths
  nearest to the value, the upper one of two, written with two digits after the point.
\<close>

definition two_decimals :: "rat \<Rightarrow> string" where
  "two_decimals x = (let n = nat \<lfloor>x * 100 + 1 / 2\<rfloor>
                     in show_nat (n div 100) @ ''.'' @ [digit (n div 10 mod 10), digit (n mod 10)])"

text \<open>\<open>Array.prototype.join\<close> on strings.\<close>

fun join :: "string \<Rightarrow> string list \<Rightarrow> string" where
  "join sep [] = []"
| "join sep [x] = x"
| "join sep (x # y # ys) = x @ sep @ join sep (y # ys)"

section \<open>The outliers renderers\<close>

text \<open>
  An outlier report maps a column to its count, its percentage and the raw outlier
  values. \<open>Object.entries\<close> enumerates the columns in order, so the report is an
  association list. What a renderer writes into a card is kept as the text of each
  element of the card's template; the indentation of the template is left out.
\<close>

record outlier_info =
  count :: number
  percentage :: number
  outlier_values :: "number list"

record card =
  h4_class :: string
  h4_text :: string
  stat_value :: string
  stat_description :: string

datatype 'a rendering = NoData string | Cards "'a list"

text \<open>\<open>displayOutliers\<close> of \<open>static/js/app.js\<close>.\<close>

definition outlierCard :: "(rat \<Rightarrow> string) \<Rightarrow> string \<times> outlier_info \<Rightarrow> card" where
  "outlierCard sh = (\<lambda>(column, data).
     let severity = (if js_gt (percentage data) (Num 5) then ''warning'' else ''info'')
     in \<lparr> h4_class = severity,
          h4_text = column,
          stat_value = numberToString sh (count data) @ '' outliers (''
                         @ toFixed sh 2 (percentage data) @ ''%)'',
          stat_description = ''<strong>Sample values:</strong> ''
                         @ join '', '' (map (numberToString sh) (take 5 (outlier_values data))) \<rparr>)"

definition displayOutliers_app ::
  "(rat \<Rightarrow> string) \<Rightarrow> (string \<times> outlier_info) list \<Rightarrow> card rendering" where
  "displayOutliers_app sh outliers =
     (if length (map fst outliers) = 0
      then NoData ''No outliers detected in numeric columns''
      else Cards (map (outlierCard sh) outliers))"

text \<open>
  \<open>displayOutliers\<close> of \<open>script (11).js\<close>: one item per column, whose description holds
  the count, the percentage and all the outlier values. An absent report is \<open>None\<close>.
\<close>

record insight_item =
  item_class :: string
  item_title :: string
  item_description :: string

definition displayOutliers_script11 ::
  "(rat \<Rightarrow> string) \<Rightarrow> (string \<times> outlier_info) list option \<Rightarrow> insight_item rendering" where
  "displayOutliers_script11 sh outliers =
     (case outliers of
        None \<Rightarrow> NoData ''No significant outliers detected.''
      | Some os \<Rightarrow>
          if length (map fst os) = 0 then NoData ''No significant outliers detected.''
          else Cards (map (\<lambda>(col, d).
                 \<lparr> item_class = ''insight-item border-warning text-warning bg-warning-light'',
                   item_title = ''Outliers in '' @ col,
                   item_description = ''Found '' @ numberToString sh (count d) @ '' outliers (''
                       @ toFixed sh 2 (percentage d) @ ''%): ''
                       @ join '', '' (map (numberToString sh) (outlier_values d)) \<rparr>) os))"

text \<open>
  A report with one column above the threshold and one at it. The percentage of the first
  column is the number that \<open>JSON.parse\<close> reads from \<open>12.345\<close>.
\<close>

definition example_report :: "(string \<times> outlier_info) list" where
  "example_report =
     [(''age'', \<lparr>count = Num 3, percentage = rnd (12345 / 1000),
                outlier_values = [Num 1, Num 2, Num 3, Num 4, Num 5, Num 6]\<rparr>),
      (''fare'', \<lparr>count = Num 1, percentage = Num 5, outlier_values = [Num 7]\<rparr>)]"

section \<open>Requests, replies and what the user sees\<close>

text \<open>
  A handler of the client runs synchronously up to its request and continues in the
  callbacks of the promise. The model gives a handler the outcome of its request as an
  argument and returns the session state it leaves and the trace of its effects, in
  order. Writes to the console are not part of the trace.
\<close>

datatype 'a jsref = Null | Undefined | Obj 'a

fun truthy :: "'a jsref \<Rightarrow> bool" where
  "truthy (Obj _) = True"
| "truthy _ = False"

text \<open>A string that may be absent is truthy when it is present and not empty.\<close>

fun truthy_str :: "string option \<Rightarrow> bool" where
  "truthy_str (Some s) = (s \<noteq> [])"
| "truthy_str None = False"

text \<open>The fields of a parsed response body that the client reads.\<close>

record 'a body =
  error :: "string option"
  success :: bool
  analysis :: "'a jsref"
  result :: "'a jsref"
  filename :: "string option"
  available_columns :: "string list option"

text \<open>
  \<open>response.json()\<close> gives the parsed body or rejects with the parser's message. \<open>fetch\<close>
  rejects with a message (a network failure) or resolves with a response: its \<open>ok\<close>
  flag, its status text and its body. An upload also races a timer: either the timer
  fires first, which aborts the request and rejects it with the abort's message, or the
  request settles first.
\<close>

datatype 'a reply = Json "'a body" | Malformed string

datatype 'a fetch_result = Rejected string | Responded bool string "'a reply"

datatype 'a upload_outcome = TimerFirst string | Settled "'a fetch_result"

text \<open>
  A cell of a data row is absent, \<open>null\<close>, a number or a string. What the client hands
  to the charting library is the kind of the chart, its label and its data.
\<close>

datatype cell = Absent | NullCell | NumCell number | StrCell string

datatype chart_config =
    ScatterChart string "(cell \<times> cell) list"
  | BarChart string "string list" "number list"
  | DoughnutChart "number list"

datatype event =
    Alert string
  | ShowLoading
  | HideLoading
  | Fetch string string
  | SetTimeout
  | ClearTimeout
  | TimerFired
  | Abort
  | Html string string
  | ScrollTo string
  | Button string
  | NavClick
  | XhrSend string
  | Rendered string
  | ChartDestroy nat
  | ChartCreate string nat chart_config

text \<open>
  The state of the upload's timer after a trace: set by \<open>setTimeout\<close>, it stays pending
  until it fires or \<open>clearTimeout\<close> reaches it; clearing a timer that is not pending does
  nothing.
\<close>

datatype timer = Pending | Cleared | Fired

fun timer_step :: "timer option \<Rightarrow> event \<Rightarrow> timer option" where
  "timer_step _ SetTimeout = Some Pending"
| "timer_step (Some Pending) ClearTimeout = Some Cleared"
| "timer_step (Some Pending) TimerFired = Some Fired"
| "timer_step t _ = t"

definition timer_after :: "event list \<Rightarrow> timer option" where
  "timer_after evs = foldl timer_step None evs"

fun is_Fetch :: "event \<Rightarrow> bool" where
  "is_Fetch (Fetch _ _) = True"
| "is_Fetch (XhrSend _) = True"
| "is_Fetch _ = False"

definition network_calls :: "event list \<Rightarrow> nat" where
  "network_calls evs = length (filter is_Fetch evs)"

fun is_Rendered :: "event \<Rightarrow> bool" where
  "is_Rendered (Rendered _) = True"
| "is_Rendered _ = False"

text \<open>\<open>file.name.split(".").pop().toLowerCase()\<close>, on ASCII names.\<close>

definition toLowerCase :: "string \<Rightarrow> string" where
  "toLowerCase s = map (\<lambda>c. case map_of (zip ''ABCDEFGHIJKLMNOPQRSTUVWXYZ''
                                              ''abcdefghijklmnopqrstuvwxyz'') c of
                              Some d \<Rightarrow> d | None \<Rightarrow> c) s"

definition toUpperCase :: "string \<Rightarrow> string" where
  "toUpperCase s = map (\<lambda>c. case map_of (zip ''abcdefghijklmnopqrstuvwxyz''
                                              ''ABCDEFGHIJKLMNOPQRSTUVWXYZ'') c of
                              Some d \<Rightarrow> d | None \<Rightarrow> c) s"

definition fileExtension :: "string \<Rightarrow> string" where
  "fileExtension name = toLowerCase (rev (takeWhile (\<lambda>c. c \<noteq> CHR ''.'') (rev name)))"

text \<open>\<open>s.replace('_', ' ')\<close> replaces the first underscore only.\<close>

fun replace_underscore :: "string \<Rightarrow> string" where
  "replace_underscore [] = []"
| "replace_underscore (c # cs) = (if c = CHR ''_'' then CHR '' '' # cs else c # replace_underscore cs)"

text \<open>
  The message of the \<open>TypeError\<close> raised when a property is read from \<open>undefined\<close> or
  \<open>null\<close>, in the wording of V8.
\<close>

definition typeError :: "string \<Rightarrow> string \<Rightarrow> string" where
  "typeError what prop = ''Cannot read properties of '' @ what
      @ '' (reading '' @ [CHR 0x27] @ prop @ [CHR 0x27] @ '')''"

fun nullish :: "'a jsref \<Rightarrow> string" where
  "nullish Null = ''null''"
| "nullish _ = ''undefined''"

section \<open>The handlers of the first script (the file with \<open>performInitialAnalysis\<close>)\<close>

text \<open>
  The session state of the two scripts is the variable \<open>currentData\<close>. The renderers that
  a handler calls on a payload are a parameter: they give the effects of the rendering
  and, when it throws, the message of the exception.
\<close>

type_synonym 'a renderer = "'a jsref \<Rightarrow> event list \<times> string option"

definition processFiles_part000 ::
  "'a renderer \<Rightarrow> 'a jsref \<Rightarrow> string list \<Rightarrow> 'a upload_outcome \<Rightarrow> 'a jsref \<times> event list" where
  "processFiles_part000 render currentData files outcome =
     (case files of
        [] \<Rightarrow> (currentData, [Alert ''No file selected.''])
      | file # _ \<Rightarrow>
          if fileExtension file \<notin> set [''csv'', ''json'', ''xlsx'']
          then (currentData, [Alert ''Unsupported file format. Please use CSV, JSON, or Excel (.xlsx).''])
          else
            let start = [ShowLoading, SetTimeout, Fetch ''http://localhost:5000/upload'' ''upload''];
                catch = (\<lambda>msg. [Alert (''Error processing file: '' @ msg)]);
                finally = [ClearTimeout, HideLoading]
            in (case outcome of
                  TimerFirst msg \<Rightarrow>
                    (currentData, start @ [TimerFired, Abort] @ catch msg @ finally)
                | Settled (Rejected msg) \<Rightarrow>
                    (currentData, start @ catch msg @ finally)
                | Settled (Responded ok statusText reply) \<Rightarrow>
                    if \<not> ok
                    then (currentData, start @ [ClearTimeout]
                            @ catch (''Upload failed: '' @ statusText) @ finally)
                    else (case reply of
                            Malformed msg \<Rightarrow>
                              (currentData, start @ [ClearTimeout] @ catch msg @ finally)
                          | Json data \<Rightarrow>
                              if truthy_str (error data)
                              then (currentData, start @ [ClearTimeout]
                                      @ catch (the (error data)) @ finally)
                              else if \<not> truthy (analysis data)
                              then (currentData, start @ [ClearTimeout]
                                      @ catch ''No analysis data received from server'' @ finally)
                              else
                                let (evs, thrown) = render (analysis data)
                                in (analysis data, start @ [ClearTimeout] @ evs
                                      @ (case thrown of
                                           None \<Rightarrow> []
                                         | Some msg \<Rightarrow> [Alert (''Error displaying analysis: '' @ msg)])
                                      @ finally))))"

text \<open>
  \<open>performAnalysis\<close> dispatches on the operation; an operation it does not know renders
  nothing.
\<close>

definition analysis_operations :: "string list" where
  "analysis_operations = [''basic_stats'', ''outliers'', ''correlations'', ''histogram'', ''scatter_plot'']"

definition performAnalysis_part000 ::
  "(string \<Rightarrow> 'a renderer) \<Rightarrow> 'a jsref \<Rightarrow> string \<Rightarrow> 'a fetch_result \<Rightarrow> 'a jsref \<times> event list" where
  "performAnalysis_part000 render currentData operation outcome =
     (if \<not> truthy currentData \<and> operation \<noteq> ''basic_stats''
      then (currentData, [Alert ''Please upload data first'', HideLoading])
      else
        let start = [ShowLoading, Fetch ''http://localhost:5000/analyze'' operation];
            catch = (\<lambda>msg. [Alert (''Error performing '' @ operation @ '': '' @ msg)]);
            finally = [HideLoading]
        in (case outcome of
              Rejected msg \<Rightarrow> (currentData, start @ catch msg @ finally)
            | Responded ok statusText reply \<Rightarrow>
                if \<not> ok
                then (currentData, start @ catch (''Analysis failed: '' @ statusText) @ finally)
                else (case reply of
                        Malformed msg \<Rightarrow> (currentData, start @ catch msg @ finally)
                      | Json data \<Rightarrow>
                          if truthy_str (error data)
                          then (currentData, start @ catch (the (error data)) @ finally)
                          else
                            let (evs, thrown) =
                                  (if operation \<in> set analysis_operations
                                   then render operation (result data) else ([], None))
                            in (currentData, start @ evs
                                  @ (case thrown of
                                       None \<Rightarrow> [ScrollTo ''analysis-section'']
                                     | Some msg \<Rightarrow>
                                         [Alert (''Error rendering '' @ operation @ '': '' @ msg)])
                                  @ finally))))"

section \<open>The handlers of the second script (\<open>script (11).js\<close>)\<close>

text \<open>
  Here the timer's callback also alerts and hides the loading modal, the timer is
  cleared in the first callback of the promise only, and the payload is stored before it
  is looked at. A timer that is still pending when the promise has settled fires
  afterwards: the trace ends with its callback.
\<close>

definition late_timer :: "event list \<Rightarrow> event list" where
  "late_timer evs =
     (if timer_after evs = Some Pending
      then evs @ [TimerFired, Abort, Alert ''Upload request timed out.'', HideLoading]
      else evs)"

definition processFiles_script11 ::
  "'a renderer \<Rightarrow> 'a jsref \<Rightarrow> string list option \<Rightarrow> 'a upload_outcome \<Rightarrow> 'a jsref \<times> event list" where
  "processFiles_script11 render currentData files outcome =
     (case files of
        None \<Rightarrow> (currentData, [Alert ''No file selected.''])
      | Some [] \<Rightarrow> (currentData, [Alert ''No file selected.''])
      | Some (file # _) \<Rightarrow>
          if fileExtension file \<notin> set [''csv'', ''xlsx'']
          then (currentData, [Alert ''Unsupported file format. Please use CSV or Excel (.xlsx).''])
          else
            let start = [ShowLoading, SetTimeout, Fetch ''/upload'' ''upload''];
                catch = (\<lambda>msg. [Alert (''Error processing file: '' @ msg)]);
                finally = [HideLoading]
            in (case outcome of
                  TimerFirst msg \<Rightarrow>
                    (currentData, start @ [TimerFired, Abort, Alert ''Upload request timed out.'', HideLoading]
                       @ catch msg @ finally)
                | Settled (Rejected msg) \<Rightarrow>
                    (currentData, start @ catch msg @ finally)
                | Settled (Responded ok statusText reply) \<Rightarrow>
                    if \<not> ok
                    then (currentData, start @ [ClearTimeout]
                            @ catch (''Upload failed: '' @ statusText) @ finally)
                    else (case reply of
                            Malformed msg \<Rightarrow>
                              (currentData, start @ [ClearTimeout] @ catch msg @ finally)
                          | Json data \<Rightarrow>
                              if truthy_str (error data)
                              then (currentData, start @ [ClearTimeout]
                                      @ catch (the (error data)) @ finally)
                              else if \<not> truthy (analysis data)
                              then (analysis data, start @ [ClearTimeout]
                                      @ catch (typeError (nullish (analysis data)) ''basic_statistics'') @ finally)
                              else
                                let (evs, thrown) = render (analysis data)
                                in (analysis data, start @ [ClearTimeout] @ evs
                                      @ (case thrown of None \<Rightarrow> [] | Some msg \<Rightarrow> catch msg)
                                      @ finally))))"

text \<open>
  \<open>displayNoResults(operation, message)\<close> writes a heading and the message into the
  insights container.
\<close>

definition displayNoResults :: "string \<Rightarrow> string \<Rightarrow> event" where
  "displayNoResults operation message =
     Html ''insightsContainer''
       (''<h6>'' @ toUpperCase (replace_underscore operation) @ '' Results</h6>''
        @ ''<p class='' @ [CHR 0x22] @ ''text-muted'' @ [CHR 0x22] @ ''>'' @ message @ ''</p>'')"

definition performAnalysis_script11 ::
  "(string \<Rightarrow> 'a renderer) \<Rightarrow> 'a jsref \<Rightarrow> string \<Rightarrow> 'a fetch_result \<Rightarrow> 'a jsref \<times> event list" where
  "performAnalysis_script11 render currentData operation outcome =
     (if \<not> truthy currentData
      then (currentData, [Alert ''Please upload data first'', HideLoading])
      else
        let start = [ShowLoading, Fetch ''/analyze'' operation];
            catch = (\<lambda>msg. [displayNoResults operation msg]);
            finally = [HideLoading]
        in (case outcome of
              Rejected msg \<Rightarrow> (currentData, start @ catch msg @ finally)
            | Responded ok statusText reply \<Rightarrow>
                if \<not> ok
                then (currentData, start @ catch (''Analysis failed: '' @ statusText) @ finally)
                else (case reply of
                        Malformed msg \<Rightarrow> (currentData, start @ catch msg @ finally)
                      | Json data \<Rightarrow>
                          if truthy_str (error data)
                          then (currentData, start
                                  @ [displayNoResults operation (the (error data))] @ finally)
                          else
                            let (evs, thrown) =
                                  (if operation \<in> set analysis_operations
                                   then render operation (result data) else ([], None))
                            in (currentData, start @ evs
                                  @ (case thrown of
                                       None \<Rightarrow> [ScrollTo ''analysis-section'']
                                     | Some msg \<Rightarrow> catch msg)
                                  @ finally))))"

text \<open>
  \<open>applyFilter\<close> reads the column and the two bounds from the page; each is absent when
  its element is.
\<close>

definition applyFilter_script11 ::
  "'a renderer \<Rightarrow> 'a jsref \<Rightarrow> string option \<Rightarrow> string option \<Rightarrow> string option
     \<Rightarrow> 'a fetch_result \<Rightarrow> 'a jsref \<times> event list" where
  "applyFilter_script11 render currentData column minValue maxValue outcome =
     (if \<not> truthy_str column \<or> (\<not> truthy_str minValue \<and> \<not> truthy_str maxValue)
      then (currentData, [Alert ''Please select a column and specify at least one filter value.''])
      else
        let start = [ShowLoading, Fetch ''/analyze'' ''filter''];
            catch = (\<lambda>msg. [Alert (''Error applying filter: '' @ msg)]);
            finally = [HideLoading]
        in (case outcome of
              Rejected msg \<Rightarrow> (currentData, start @ catch msg @ finally)
            | Responded ok statusText reply \<Rightarrow>
                if \<not> ok
                then (currentData, start @ catch (''Filter failed: '' @ statusText) @ finally)
                else (case reply of
                        Malformed msg \<Rightarrow> (currentData, start @ catch msg @ finally)
                      | Json data \<Rightarrow>
                          if truthy_str (error data)
                          then (currentData, start @ catch (the (error data)) @ finally)
                          else if \<not> truthy (result data)
                          then (result data, start
                                  @ catch (typeError (nullish (result data)) ''basic_statistics'') @ finally)
                          else
                            let (evs, thrown) = render (result data)
                            in (result data, start @ evs
                                  @ (case thrown of None \<Rightarrow> [] | Some msg \<Rightarrow> catch msg)
                                  @ finally))))"

section \<open>The handlers of \<open>static/js/app.js\<close>\<close>

text \<open>
  The session state of \<open>app.js\<close> is the identifier of the uploaded file and the list of
  its columns. The seven loaders differ in the operation they name, in their messages
  and in their renderer; \<open>loadBasicStats\<close> also requires a result, and \<open>loadInsights\<close>
  relabels its button. Of a request the trace keeps the address and the operation.
\<close>

record app_state =
  currentFileId :: "string option"
  availableColumns :: "string list"

datatype app_op = BasicStats | Outliers | Correlations | Histogram | ScatterPlot | DataQuality | Insights

fun operation_name :: "app_op \<Rightarrow> string" where
  "operation_name BasicStats = ''basic_stats''"
| "operation_name Outliers = ''outliers''"
| "operation_name Correlations = ''correlations''"
| "operation_name Histogram = ''histogram''"
| "operation_name ScatterPlot = ''scatter_plot''"
| "operation_name DataQuality = ''data_quality''"
| "operation_name Insights = ''insights''"

fun failed_message :: "app_op \<Rightarrow> string" where
  "failed_message BasicStats = ''Failed to load statistics''"
| "failed_message Outliers = ''Failed to load outliers''"
| "failed_message Correlations = ''Failed to load correlations''"
| "failed_message Histogram = ''Failed to load histogram''"
| "failed_message ScatterPlot = ''Failed to load scatter plot''"
| "failed_message DataQuality = ''Failed to load data quality report''"
| "failed_message Insights = ''Failed to generate insights''"

fun catch_prefix :: "app_op \<Rightarrow> string" where
  "catch_prefix BasicStats = ''Error loading basic stats: ''"
| "catch_prefix Outliers = ''Error loading outliers: ''"
| "catch_prefix Correlations = ''Error loading correlations: ''"
| "catch_prefix Histogram = ''Error loading histogram: ''"
| "catch_prefix ScatterPlot = ''Error loading scatter plot: ''"
| "catch_prefix DataQuality = ''Error loading data quality report: ''"
| "catch_prefix Insights = ''Error generating insights: ''"

definition showNotification :: "string \<Rightarrow> string \<Rightarrow> event" where
  "showNotification message type = Alert (toUpperCase type @ '': '' @ message)"

definition load_app ::
  "app_op \<Rightarrow> (app_op \<Rightarrow> 'a renderer) \<Rightarrow> app_state \<Rightarrow> 'a fetch_result \<Rightarrow> app_state \<times> event list" where
  "load_app op render st outcome =
     (if \<not> truthy_str (currentFileId st) then (st, [])
      else
        let start = (if op = Insights then [Button ''Generating...''] else [])
                      @ [Fetch ''/analyze'' (operation_name op)];
            catch = (\<lambda>msg. [showNotification (catch_prefix op @ msg) ''error'']);
            finally = (if op = Insights then [Button ''Generate New Insights''] else [])
        in (case outcome of
              Rejected msg \<Rightarrow> (st, start @ catch msg @ finally)
            | Responded ok statusText reply \<Rightarrow>
                (case reply of
                   Malformed msg \<Rightarrow> (st, start @ catch msg @ finally)
                 | Json data \<Rightarrow>
                     if success data \<and> (if op = BasicStats then truthy (result data) else True)
                     then
                       let (evs, thrown) = render op (result data)
                       in (st, start @ evs
                             @ (case thrown of
                                  None \<Rightarrow> (if op = Insights
                                            then [showNotification ''Insights generated successfully!'' ''success'']
                                            else [])
                                | Some msg \<Rightarrow> catch msg)
                             @ finally)
                     else (st, start
                             @ [showNotification
                                  (if truthy_str (error data) then the (error data) else failed_message op)
                                  ''error'']
                             @ finally))))"

definition loadBasicStats :: "(app_op \<Rightarrow> 'a renderer) \<Rightarrow> app_state \<Rightarrow> 'a fetch_result \<Rightarrow> app_state \<times> event list" where
  "loadBasicStats = load_app BasicStats"

definition loadOutliers :: "(app_op \<Rightarrow> 'a renderer) \<Rightarrow> app_state \<Rightarrow> 'a fetch_result \<Rightarrow> app_state \<times> event list" where
  "loadOutliers = load_app Outliers"

definition loadCorrelations :: "(app_op \<Rightarrow> 'a renderer) \<Rightarrow> app_state \<Rightarrow> 'a fetch_result \<Rightarrow> app_state \<times> event list" where
  "loadCorrelations = load_app Correlations"

definition loadHistogram :: "(app_op \<Rightarrow> 'a renderer) \<Rightarrow> app_state \<Rightarrow> 'a fetch_result \<Rightarrow> app_state \<times> event list" where
  "loadHistogram = load_app Histogram"

definition loadScatterPlot :: "(app_op \<Rightarrow> 'a renderer) \<Rightarrow> app_state \<Rightarrow> 'a fetch_result \<Rightarrow> app_state \<times> event list" where
  "loadScatterPlot = load_app ScatterPlot"

definition loadDataQuality :: "(app_op \<Rightarrow> 'a renderer) \<Rightarrow> app_state \<Rightarrow> 'a fetch_result \<Rightarrow> app_state \<times> event list" where
  "loadDataQuality = load_app DataQuality"

definition loadInsights :: "(app_op \<Rightarrow> 'a renderer) \<Rightarrow> app_state \<Rightarrow> 'a fetch_result \<Rightarrow> app_state \<times> event list" where
  "loadInsights = load_app Insights"

text \<open>
  \<open>uploadFile\<close> sends the file with an \<open>XMLHttpRequest\<close>: the request fails, or it loads
  with a status and a response text. \<open>JSON.parse\<close> of a malformed text throws out of the
  load handler. After a successful upload the handler fills the column selector, which
  is taken to succeed, and loads the basic statistics, with a request of its own. The
  progress bar and the delayed relabelling of the button are not part of the trace.
\<close>

datatype 'a xhr_outcome = XhrError | XhrLoad nat "'a reply"

definition uploadFile ::
  "(app_op \<Rightarrow> 'a renderer) \<Rightarrow> app_state \<Rightarrow> 'a xhr_outcome \<Rightarrow> 'a fetch_result \<Rightarrow> app_state \<times> event list" where
  "uploadFile render st xhr stats_outcome =
     (let start = [Button ''Analysing...'', XhrSend ''/upload'', Button ''Starting upload...'']
      in (case xhr of
            XhrError \<Rightarrow> (st, start @ [Button ''Connection error''])
          | XhrLoad status reply \<Rightarrow>
              if status = 200
              then (case reply of
                      Malformed msg \<Rightarrow> (st, start)
                    | Json data \<Rightarrow>
                        if success data
                        then
                          let st' = st\<lparr> currentFileId := filename data,
                                         availableColumns := (case available_columns data of
                                                                Some cs \<Rightarrow> cs | None \<Rightarrow> []) \<rparr>;
                              (st'', evs) = loadBasicStats render st' stats_outcome
                          in (st'', start @ [Button ''Analyzing file...'', Button ''Analysis complete!'',
                                             NavClick] @ evs)
                        else (st, start @ [Button ''Analyzing file...'', Button ''Upload failed'']))
              else (st, start @ [Button ''Upload error''])))"

section \<open>Sample inputs and the failures of a request\<close>

text \<open>
  A request has failed when it was aborted by the timer, when it was rejected by the
  network, when its status is not a success, when its body does not parse, or when its
  body reports an error: these are the tests the handlers make, in their order. The
  upload of \<open>app.js\<close> tests the status code and the \<open>success\<close> flag instead.
\<close>

fun fetch_failed :: "'a fetch_result \<Rightarrow> bool" where
  "fetch_failed (Rejected _) = True"
| "fetch_failed (Responded ok _ (Malformed _)) = True"
| "fetch_failed (Responded ok _ (Json data)) = (\<not> ok \<or> truthy_str (error data))"

fun upload_failed :: "'a upload_outcome \<Rightarrow> bool" where
  "upload_failed (TimerFirst _) = True"
| "upload_failed (Settled r) = fetch_failed r"

fun xhr_failed :: "'a xhr_outcome \<Rightarrow> bool" where
  "xhr_failed XhrError = True"
| "xhr_failed (XhrLoad status (Malformed _)) = True"
| "xhr_failed (XhrLoad status (Json data)) = (status \<noteq> 200 \<or> \<not> success data)"

definition no_render :: "unit renderer" where
  "no_render = (\<lambda>_. ([], None))"

definition error_body :: "unit body" where
  "error_body = \<lparr> error = Some ''File too large'', success = False, analysis = Undefined,
                   result = Undefined, filename = None, available_columns = None \<rparr>"

definition empty_state :: app_state where
  "empty_state = \<lparr> currentFileId = None, availableColumns = [] \<rparr>"

definition loaded_state :: app_state where
  "loaded_state = \<lparr> currentFileId = Some ''data.csv'', availableColumns = [''age'', ''city''] \<rparr>"

section \<open>Charts\<close>

text \<open>
  The client keeps the chart of each canvas in a variable: \<open>charts.chart1\<close>,
  \<open>charts.chart2\<close>, \<open>charts.chart3\<close> in the scripts, \<open>currentHistogramChart\<close> and
  \<open>currentScatterChart\<close> in \<open>app.js\<close>. The model keys them by the id of the canvas. A
  chart is a handle, numbered in the order of construction. \<open>new Chart\<close> and \<open>destroy\<close>
  are events of the trace; the constructor is taken to succeed. The state also holds the
  ids of the canvases that are in the page, since a renderer looks its canvas up.
\<close>

record chart_state =
  charts :: "string \<Rightarrow> nat option"
  next_id :: nat
  canvases :: "string list"

text \<open>\<open>if (charts.c) charts.c.destroy()\<close>: the variable keeps the destroyed chart.\<close>

definition destroy :: "chart_state \<Rightarrow> string \<Rightarrow> event list" where
  "destroy st slot = (case charts st slot of None \<Rightarrow> [] | Some h \<Rightarrow> [ChartDestroy h])"

text \<open>\<open>charts.c = new Chart(ctx, config)\<close>.\<close>

definition construct :: "chart_state \<Rightarrow> string \<Rightarrow> chart_config \<Rightarrow> chart_state \<times> event list" where
  "construct st slot config =
     (st\<lparr> charts := (charts st)(slot \<mapsto> next_id st), next_id := Suc (next_id st) \<rparr>,
      [ChartCreate slot (next_id st) config])"

text \<open>
  The charts that are alive after a trace, each with its slot: a construction adds its
  handle, a destruction removes it, and destroying a chart twice changes nothing.
\<close>

fun live_step :: "(string \<times> nat) list \<Rightarrow> event \<Rightarrow> (string \<times> nat) list" where
  "live_step L (ChartCreate slot h _) = L @ [(slot, h)]"
| "live_step L (ChartDestroy h) = filter (\<lambda>(s, k). k \<noteq> h) L"
| "live_step L _ = L"

definition live_after :: "(string \<times> nat) list \<Rightarrow> event list \<Rightarrow> (string \<times> nat) list" where
  "live_after L evs = foldl live_step L evs"

definition live_in :: "string \<Rightarrow> (string \<times> nat) list \<Rightarrow> nat" where
  "live_in slot L = length (filter (\<lambda>(s, k). s = slot) L)"

text \<open>The largest number of charts alive in a slot at any moment of a trace.\<close>

fun peak :: "string \<Rightarrow> (string \<times> nat) list \<Rightarrow> event list \<Rightarrow> nat" where
  "peak slot L [] = live_in slot L"
| "peak slot L (e # es) = max (live_in slot L) (peak slot (live_step L e) es)"

fun is_ChartCreate :: "event \<Rightarrow> bool" where
  "is_ChartCreate (ChartCreate _ _ _) = True"
| "is_ChartCreate _ = False"

subsection \<open>The charts of the first script\<close>

type_synonym row = "(string \<times> cell) list"

definition field :: "row \<Rightarrow> string \<Rightarrow> cell" where
  "field r k = (case map_of r k of None \<Rightarrow> Absent | Some c \<Rightarrow> c)"

text \<open>\<open>v || 0\<close> on a cell.\<close>

fun or_zero :: "cell \<Rightarrow> cell" where
  "or_zero Absent = NumCell (Num 0)"
| "or_zero NullCell = NumCell (Num 0)"
| "or_zero (NumCell NaN) = NumCell (Num 0)"
| "or_zero (NumCell v) = NumCell v"
| "or_zero (StrCell s) = (if s = [] then NumCell (Num 0) else StrCell s)"

record hist =
  labels :: "string list"
  counts :: "number list"

record scatter_data =
  scatter_error :: "string option"
  scatter_rows :: "row list option"
  x_column :: "string option"
  y_column :: "string option"

text \<open>
  \<open>createSampleHistogram\<close>: the canvas is looked up without a test, so a missing canvas
  throws; the chart of the slot is destroyed before the data is looked at.
\<close>

definition createSampleHistogram_part000 ::
  "chart_state \<Rightarrow> (string \<times> hist) list option \<Rightarrow> chart_state \<times> event list \<times> string option" where
  "createSampleHistogram_part000 st histogramData =
     (if ''chart3'' \<notin> set (canvases st) then (st, [], Some (typeError ''null'' ''getContext''))
      else
        let d = destroy st ''chart3''
        in (case histogramData of
              None \<Rightarrow> (st, d @ [Alert ''No histogram data available.''], None)
            | Some [] \<Rightarrow> (st, d @ [Alert ''No histogram data available.''], None)
            | Some ((col, h) # _) \<Rightarrow>
                if col = [] then (st, d @ [Alert ''No numeric data available for histogram.''], None)
                else
                  let (st', c) = construct st ''chart3'' (BarChart (''Frequency of '' @ col) (labels h) (counts h))
                  in (st', d @ c, None)))"

text \<open>
  \<open>createScatterPlot\<close>: a missing canvas is reported; then the chart of the slot is
  destroyed; then the payload is tested for presence, for an error, and for the presence
  of its rows and of its two column names. An empty array of rows is present.
\<close>

definition createScatterPlot_part000 ::
  "chart_state \<Rightarrow> scatter_data jsref \<Rightarrow> chart_state \<times> event list \<times> string option" where
  "createScatterPlot_part000 st scatterData =
     (if ''chart3'' \<notin> set (canvases st)
      then (st, [Alert ''Visualization error: Scatter plot canvas not found.''], None)
      else
        let d = destroy st ''chart3''
        in (case scatterData of
              Obj sd \<Rightarrow>
                (case scatter_rows sd of
                   Some rows \<Rightarrow>
                     if truthy_str (scatter_error sd) \<or> \<not> truthy_str (x_column sd) \<or> \<not> truthy_str (y_column sd)
                     then (st, d @ [Alert ''Not enough valid data for scatter plot.''], None)
                     else
                       let x = the (x_column sd); y = the (y_column sd);
                           (st', c) = construct st ''chart3''
                             (ScatterChart (y @ '' vs '' @ x)
                                (map (\<lambda>row. (or_zero (field row x), or_zero (field row y))) rows))
                       in (st', d @ c, None)
                 | None \<Rightarrow> (st, d @ [Alert ''Not enough valid data for scatter plot.''], None))
            | _ \<Rightarrow> (st, d @ [Alert ''Not enough valid data for scatter plot.''], None)))"

text \<open>
  \<open>createCategoricalChart\<close> appends a new canvas \<open>chart3\<close> to the visualization section
  and constructs its chart; it does not look at \<open>charts.chart3\<close>. With no categorical
  column it replaces the content of the section, canvases included.
\<close>

definition createCategoricalChart_part000 ::
  "chart_state \<Rightarrow> (string \<times> (string \<times> number) list) list \<Rightarrow> chart_state \<times> event list \<times> string option" where
  "createCategoricalChart_part000 st categoricalSummary =
     (case categoricalSummary of
        [] \<Rightarrow> (st\<lparr> canvases := [] \<rparr>,
               [Html ''visualization-section'' ''No categorical data available for visualization.''], None)
      | (firstCol, valueCounts) # _ \<Rightarrow>
          let (st', c) = construct (st\<lparr> canvases := canvases st @ [''chart3''] \<rparr>) ''chart3''
                (BarChart (''Top Values in '' @ firstCol) (map fst valueCounts) (map snd valueCounts))
          in (st', c, None))"

text \<open>
  The basic statistics name the numeric columns with their means, the categorical columns
  with their most frequent values, and the datetime and the text columns.
  \<open>createColumnDistributionChart\<close> draws the means into \<open>chart1\<close>, a missing mean as 0,
  and \<open>createDataTypeChart\<close> draws the number of columns of each kind into \<open>chart2\<close>.
  Both look their canvas up without a test, then destroy the chart of their slot.
\<close>

record basic_stats =
  numeric_summary :: "(string \<times> number option) list"
  categorical_summary :: "(string \<times> (string \<times> number) list) list"
  datetime_summary :: "string list"
  text_summary :: "string list"

fun mean_or_zero :: "number option \<Rightarrow> number" where
  "mean_or_zero None = Num 0"
| "mean_or_zero (Some NaN) = Num 0"
| "mean_or_zero (Some v) = v"

definition createColumnDistributionChart_part000 ::
  "chart_state \<Rightarrow> basic_stats \<Rightarrow> chart_state \<times> event list \<times> string option" where
  "createColumnDistributionChart_part000 st stats =
     (if ''chart1'' \<notin> set (canvases st) then (st, [], Some (typeError ''null'' ''getContext''))
      else
        let d = destroy st ''chart1'';
            (st', c) = construct st ''chart1''
              (BarChart ''Mean Values'' (map fst (numeric_summary stats))
                 (map (\<lambda>(col, mean). mean_or_zero mean) (numeric_summary stats)))
        in (st', d @ c, None))"

definition createDataTypeChart_part000 ::
  "chart_state \<Rightarrow> basic_stats \<Rightarrow> chart_state \<times> event list \<times> string option" where
  "createDataTypeChart_part000 st stats =
     (if ''chart2'' \<notin> set (canvases st) then (st, [], Some (typeError ''null'' ''getContext''))
      else
        let d = destroy st ''chart2'';
            (st', c) = construct st ''chart2''
              (DoughnutChart [Num (of_nat (length (numeric_summary stats))),
                              Num (of_nat (length (categorical_summary stats))),
                              Num (of_nat (length (datetime_summary stats))),
                              Num (of_nat (length (text_summary stats)))])
        in (st', d @ c, None))"

subsection \<open>The charts of \<open>app.js\<close>\<close>

text \<open>
  \<open>renderHistogramChart\<close> and \<open>renderScatterChart\<close> destroy the chart of their variable
  and then look their canvas up, which throws when the canvas is gone.
\<close>

definition renderHistogramChart ::
  "chart_state \<Rightarrow> hist \<Rightarrow> string \<Rightarrow> chart_state \<times> event list \<times> string option" where
  "renderHistogramChart st histogramData columnName =
     (let d = destroy st ''histogram-chart''
      in if ''histogram-chart'' \<notin> set (canvases st) then (st, d, Some (typeError ''null'' ''getContext''))
         else
           let (st', c) = construct st ''histogram-chart''
                 (BarChart (''Distribution of '' @ columnName) (labels histogramData) (counts histogramData))
           in (st', d @ c, None))"

text \<open>
  \<open>displayHistogram\<close> shows the first column of the data. With no column it destroys the
  chart and replaces the content of the canvas's parent, which removes the canvas.
\<close>

definition displayHistogram ::
  "chart_state \<Rightarrow> (string \<times> hist) list \<Rightarrow> chart_state \<times> event list \<times> string option" where
  "displayHistogram st histogramData =
     (case histogramData of
        [] \<Rightarrow>
          let d = destroy st ''histogram-chart''
          in if ''histogram-chart'' \<notin> set (canvases st) then (st, d, Some (typeError ''null'' ''parentElement''))
             else (st\<lparr> canvases := removeAll ''histogram-chart'' (canvases st) \<rparr>,
                   d @ [Html ''histogram-chart'' ''No numeric columns available for histogram''], None)
      | (firstColumn, h) # _ \<Rightarrow> renderHistogramChart st h firstColumn)"

definition renderScatterChart ::
  "chart_state \<Rightarrow> row list \<Rightarrow> string \<Rightarrow> string \<Rightarrow> chart_state \<times> event list \<times> string option" where
  "renderScatterChart st data xColumn yColumn =
     (let d = destroy st ''scatter-chart'';
          filteredData = filter (\<lambda>item. field item xColumn \<noteq> NullCell \<and> field item yColumn \<noteq> NullCell) data
      in if ''scatter-chart'' \<notin> set (canvases st) then (st, d, Some (typeError ''null'' ''getContext''))
         else
           let (st', c) = construct st ''scatter-chart''
                 (ScatterChart (xColumn @ '' vs '' @ yColumn)
                    (map (\<lambda>item. (field item xColumn, field item yColumn)) filteredData))
           in (st', d @ c, None))"

text \<open>
  Assigning to the value of a \<open>select\<close> element selects the option with that value, and
  leaves the value empty when there is none.
\<close>

definition select_value :: "string list \<Rightarrow> string \<Rightarrow> string" where
  "select_value options v = (if v \<in> set options then v else [])"

fun is_NumCell :: "cell \<Rightarrow> bool" where
  "is_NumCell (NumCell _) = True"
| "is_NumCell _ = False"

text \<open>
  \<open>displayScatterPlot\<close>. A payload with an error destroys the chart and shows the error
  in place of the canvas. The numeric columns are the available columns that hold a
  number in some row; the rows are read without a test, which throws when they are
  absent and there is a column to look for. With fewer than two numeric columns a
  placeholder replaces the canvas. Otherwise the two axes default to the payload's
  columns, or to the first two numeric columns, and the chart is rendered.
\<close>

definition displayScatterPlot ::
  "chart_state \<Rightarrow> app_state \<Rightarrow> scatter_data \<Rightarrow> chart_state \<times> event list \<times> string option" where
  "displayScatterPlot st session scatterData =
     (if truthy_str (scatter_error scatterData)
      then
        let d = destroy st ''scatter-chart''
        in if ''scatter-chart'' \<notin> set (canvases st) then (st, d, Some (typeError ''null'' ''parentElement''))
           else (st\<lparr> canvases := removeAll ''scatter-chart'' (canvases st) \<rparr>,
                 d @ [Html ''scatter-chart'' (the (scatter_error scatterData))], None)
      else if scatter_rows scatterData = None \<and> availableColumns session \<noteq> []
      then (st, [], Some (typeError ''undefined'' ''some''))
      else
        let data = (case scatter_rows scatterData of Some rows \<Rightarrow> rows | None \<Rightarrow> []);
            numericColumns = filter (\<lambda>col. list_ex (\<lambda>item. is_NumCell (field item col)) data)
                               (availableColumns session)
        in if length numericColumns < 2
           then if ''scatter-chart'' \<notin> set (canvases st) then (st, [], Some (typeError ''null'' ''parentElement''))
                else (st\<lparr> canvases := removeAll ''scatter-chart'' (canvases st) \<rparr>,
                      [Html ''scatter-chart'' ''Need at least two numeric columns for scatter plot''], None)
           else
             let x = select_value numericColumns
                       (if truthy_str (x_column scatterData) then the (x_column scatterData)
                        else numericColumns ! 0);
                 y = select_value numericColumns
                       (if truthy_str (y_column scatterData) then the (y_column scatterData)
                        else numericColumns ! 1)
             in renderScatterChart st data x y)"

subsection \<open>Sequences of renderings\<close>

text \<open>
  The renderings of the first script are the calls of \<open>createColumnDistributionChart\<close>
  (slot \<open>chart1\<close>), of \<open>createDataTypeChart\<close> (slot \<open>chart2\<close>), and of
  \<open>createSampleHistogram\<close> and \<open>createScatterPlot\<close> (slot \<open>chart3\<close>). The renderings of
  \<open>app.js\<close> are the calls of \<open>displayHistogram\<close> and, from the column switcher, of
  \<open>renderHistogramChart\<close>, and the calls of \<open>displayScatterPlot\<close> and, from the axis
  selectors, of \<open>renderScatterChart\<close>. A sequence of calls runs each on the state the
  previous one left, and its trace is the traces of the calls in order.
\<close>

datatype render_call =
    ColumnDistribution basic_stats
  | DataType basic_stats
  | SampleHistogram "(string \<times> hist) list option"
  | ScatterPlot "scatter_data jsref"
  | DisplayHistogram "(string \<times> hist) list"
  | SwitchColumn hist string
  | DisplayScatter app_state scatter_data
  | SwitchAxis "row list" string string

fun render_slot :: "render_call \<Rightarrow> string" where
  "render_slot (ColumnDistribution _) = ''chart1''"
| "render_slot (DataType _) = ''chart2''"
| "render_slot (SampleHistogram _) = ''chart3''"
| "render_slot (ScatterPlot _) = ''chart3''"
| "render_slot (DisplayHistogram _) = ''histogram-chart''"
| "render_slot (SwitchColumn _ _) = ''histogram-chart''"
| "render_slot (DisplayScatter _ _) = ''scatter-chart''"
| "render_slot (SwitchAxis _ _ _) = ''scatter-chart''"

fun render :: "chart_state \<Rightarrow> render_call \<Rightarrow> chart_state \<times> event list \<times> string option" where
  "render st (ColumnDistribution stats) = createColumnDistributionChart_part000 st stats"
| "render st (DataType stats) = createDataTypeChart_part000 st stats"
| "render st (SampleHistogram d) = createSampleHistogram_part000 st d"
| "render st (ScatterPlot d) = createScatterPlot_part000 st d"
| "render st (DisplayHistogram d) = displayHistogram st d"
| "render st (SwitchColumn h c) = renderHistogramChart st h c"
| "render st (DisplayScatter session d) = displayScatterPlot st session d"
| "render st (SwitchAxis rows x y) = renderScatterChart st rows x y"

text \<open>
  \<open>displayScatterPlot\<close> is the one rendering that can replace its canvas by a placeholder
  without destroying the chart of the slot.
\<close>

fun is_DisplayScatter :: "render_call \<Rightarrow> bool" where
  "is_DisplayScatter (DisplayScatter _ _) = True"
| "is_DisplayScatter _ = False"

fun render_all :: "chart_state \<Rightarrow> render_call list \<Rightarrow> chart_state \<times> event list" where
  "render_all st [] = (st, [])"
| "render_all st (c # cs) =
     (let (st', evs, thrown) = render st c; (st'', evs') = render_all st' cs
      in (st'', evs @ evs'))"

definition initial_charts :: chart_state where
  "initial_charts = \<lparr> charts = (\<lambda>_. None), next_id = 0,
                       canvases = [''chart1'', ''chart2'', ''chart3'', ''histogram-chart'', ''scatter-chart''] \<rparr>"

text \<open>Sample scatter payloads: one with no rows, one without its \<open>y_column\<close>.\<close>

definition empty_scatter :: scatter_data where
  "empty_scatter = \<lparr> scatter_error = None, scatter_rows = Some [],
                      x_column = Some ''age'', y_column = Some ''fare'' \<rparr>"

definition scatter_without_y :: scatter_data where
  "scatter_without_y = \<lparr> scatter_error = None,
                          scatter_rows = Some [[(''age'', NumCell (Num 31)), (''fare'', NumCell (Num 7))]],
                          x_column = Some ''age'', y_column = None \<rparr>"

definition age_fare_state :: app_state where
  "age_fare_state = \<lparr> currentFileId = Some ''data.csv'', availableColumns = [''age'', ''fare''] \<rparr>"

subsection \<open>The registry and the charts alive\<close>

text \<open>
  The charts alive in one slot, and the invariant of the renderers that destroy before
  they construct: a slot holds no chart, or exactly the chart its variable names.
\<close>

definition slot_live :: "string \<Rightarrow> (string \<times> nat) list \<Rightarrow> (string \<times> nat) list" where
  "slot_live slot L = filter (\<lambda>(s, k). s = slot) L"

definition registered :: "chart_state \<Rightarrow> (string \<times> nat) list \<Rightarrow> bool" where
  "registered st L =
     (\<forall>slot. slot_live slot L = [] \<or> (\<exists>h. charts st slot = Some h \<and> slot_live slot L = [(slot, h)]))"

text \<open>A step is sound when it keeps the registry and never holds two charts in a slot.\<close>

definition sound :: "chart_state \<Rightarrow> (string \<times> nat) list \<Rightarrow> chart_state \<Rightarrow> event list \<Rightarrow> bool" where
  "sound st L st' evs = (registered st' (live_after L evs) \<and> (\<forall>s. peak s L evs \<le> 1))"

text \<open>Sample histogram data, a scatter payload with rows, and the states they lead to.\<close>

definition example_hist :: hist where
  "example_hist = \<lparr> labels = [''0-10'', ''10-20''], counts = [Num 4, Num 6] \<rparr>"

definition full_scatter :: scatter_data where
  "full_scatter = \<lparr> scatter_error = None,
                     scatter_rows = Some [[(''age'', NumCell (Num 31)), (''fare'', NullCell)]],
                     x_column = Some ''age'', y_column = Some ''fare'' \<rparr>"

definition one_chart :: chart_state where
  "one_chart = \<lparr> charts = (\<lambda>_. None)(''chart3'' \<mapsto> 0), next_id = 1,
                  canvases = [''chart1'', ''chart2'', ''chart3'', ''histogram-chart'', ''scatter-chart''] \<rparr>"

definition second_chart :: chart_state where
  "second_chart = \<lparr> charts = (\<lambda>_. None)(''chart3'' \<mapsto> 1), next_id = 2,
                     canvases = [''chart1'', ''chart2'', ''chart3'', ''histogram-chart'', ''scatter-chart''] \<rparr>"

definition scatter_drawn :: chart_state where
  "scatter_drawn = \<lparr> charts = (\<lambda>_. None)(''scatter-chart'' \<mapsto> 0), next_id = 1,
                      canvases = [''chart1'', ''chart2'', ''chart3'', ''histogram-chart'', ''scatter-chart''] \<rparr>"

section \<open>The data-quality renderer\<close>

text \<open>
  \<open>displayDataQuality\<close> of \<open>app.js\<close>. The payload maps each column to its number of
  missing values and gives the shape of the dataset, rows first, the number of duplicate
  rows and the empty and the constant columns. The renderer writes a card for the
  missing values, a card for the duplicates and, when there is an empty or a constant
  column, a card for them. Reading the first entry of an empty shape gives \<open>undefined\<close>,
  which a product turns into \<open>NaN\<close>.
\<close>

record quality_data =
  missing_values :: "(string \<times> number) list"
  shape :: "number list"
  duplicates :: number
  empty_columns :: "string list"
  constant_columns :: "string list"

definition missingValues :: "quality_data \<Rightarrow> number" where
  "missingValues q = foldl fadd (Num 0) (map snd (missing_values q))"

definition totalCells :: "quality_data \<Rightarrow> number" where
  "totalCells q = fmul (Num (of_nat (length (map fst (missing_values q)))))
                       (case shape q of [] \<Rightarrow> NaN | rows # _ \<Rightarrow> rows)"

definition missingPercentage :: "quality_data \<Rightarrow> number" where
  "missingPercentage q = fmul (fdiv (missingValues q) (totalCells q)) (Num 100)"

definition displayDataQuality :: "(rat \<Rightarrow> string) \<Rightarrow> quality_data \<Rightarrow> card list" where
  "displayDataQuality sh q =
     [\<lparr> h4_class = [], h4_text = ''Missing Values'',
        stat_value = numberToString sh (missingValues q) @ '' missing (''
                       @ toFixed sh 2 (missingPercentage q) @ ''%)'',
        stat_description = ''<strong>Columns with missing values:</strong> ''
                       @ join '', '' (map (\<lambda>(col, count). col @ '' ('' @ numberToString sh count @ '')'')
                                        (filter (\<lambda>(col, count). js_gt count (Num 0)) (missing_values q))) \<rparr>,
      \<lparr> h4_class = [], h4_text = ''Duplicate Rows'',
        stat_value = numberToString sh (duplicates q) @ '' duplicates'',
        stat_description = [] \<rparr>]
     @ (if length (empty_columns q) > 0 \<or> length (constant_columns q) > 0
        then [\<lparr> h4_class = ''warning'', h4_text = ''Data Quality Issues'', stat_value = [],
                 stat_description = join ''<br>''
                   ((if length (empty_columns q) > 0
                     then [''Empty columns: '' @ join '', '' (empty_columns q)] else [])
                    @ (if length (constant_columns q) > 0
                       then [''Constant columns: '' @ join '', '' (constant_columns q)] else [])) \<rparr>]
        else [])"

definition example_quality :: quality_data where
  "example_quality = \<lparr> missing_values = [(''age'', Num 1), (''city'', Num 0)], shape = [Num 400, Num 2],
                        duplicates = Num 0, empty_columns = [], constant_columns = [] \<rparr>"

section \<open>File sizes\<close>

text \<open>
  \<open>parseFloat\<close> skips leading white space, reads an optional sign, and then the longest
  prefix that is \<open>Infinity\<close> or a decimal literal: digits, an optional point and digits,
  an optional exponent. Without a digit the result is \<open>NaN\<close>; what follows the literal is
  ignored. The white space is that of ASCII.
\<close>

datatype js_value = JStr string | JNum number

definition is_ws :: "char \<Rightarrow> bool" where
  "is_ws c = (c \<in> set [CHR '' '', CHR 0x09, CHR 0x0A, CHR 0x0B, CHR 0x0C, CHR 0x0D])"

definition is_digit :: "char \<Rightarrow> bool" where
  "is_digit c = (c \<in> set ''0123456789'')"

definition digit_val :: "char \<Rightarrow> nat" where
  "digit_val c = (case map_of (zip ''0123456789'' [0, 1, 2, 3, 4, 5, 6, 7, 8, 9]) c of
                    Some d \<Rightarrow> d | None \<Rightarrow> 0)"

definition digits_val :: "string \<Rightarrow> nat" where
  "digits_val s = foldl (\<lambda>a c. 10 * a + digit_val c) 0 s"

definition exponent_part :: "string \<Rightarrow> int" where
  "exponent_part s =
     (case s of
        [] \<Rightarrow> 0
      | c # r \<Rightarrow>
          if c = CHR ''e'' \<or> c = CHR ''E''
          then (let (neg, r') = (case r of
                                  [] \<Rightarrow> (False, r)
                                | d # r'' \<Rightarrow> if d = CHR ''-'' then (True, r'')
                                             else if d = CHR ''+'' then (False, r'') else (False, r));
                    ds = takeWhile is_digit r'
                in if ds = [] then 0
                   else if neg then - int (digits_val ds) else int (digits_val ds))
          else 0)"

definition pow10 :: "int \<Rightarrow> rat" where
  "pow10 e = (if 0 \<le> e then 10 ^ nat e else 1 / 10 ^ nat (- e))"

definition strip_sign :: "string \<Rightarrow> bool \<times> string" where
  "strip_sign t = (case t of
                     [] \<Rightarrow> (False, t)
                   | c # r \<Rightarrow> if c = CHR ''-'' then (True, r)
                              else if c = CHR ''+'' then (False, r) else (False, t))"

definition fraction_part :: "string \<Rightarrow> string \<times> string" where
  "fraction_part r1 = (case r1 of
                         [] \<Rightarrow> ([], r1)
                       | c # r \<Rightarrow> if c = CHR ''.''
                                  then (takeWhile is_digit r, dropWhile is_digit r)
                                  else ([], r1))"

definition parse_unsigned :: "string \<Rightarrow> number" where
  "parse_unsigned u =
     (if take 8 u = ''Infinity'' then PosInf
      else
        let ip = takeWhile is_digit u;
            (fp, r2) = fraction_part (dropWhile is_digit u)
        in if ip = [] \<and> fp = [] then NaN
           else rnd (of_nat (digits_val (ip @ fp)) / 10 ^ length fp * pow10 (exponent_part r2)))"

definition parseFloat :: "string \<Rightarrow> number" where
  "parseFloat s =
     (let (neg, u) = strip_sign (dropWhile is_ws s)
      in if neg then fneg (parse_unsigned u) else parse_unsigned u)"

text \<open>
  \<open>formatFileSize\<close> of \<open>app.js\<close>, on the size of a file, a natural number. The index
  \<open>Math.floor(Math.log(bytes) / Math.log(k))\<close> is a parameter, since the language leaves the
  precision of \<open>Math.log\<close> to the implementation; for a size of at least one it is a
  natural number. \<open>Math.pow(k, i)\<close> is the power of two rounded. An index past the table
  of units reads \<open>undefined\<close>, which the concatenation prints.
\<close>

definition formatFileSize :: "(rat \<Rightarrow> string) \<Rightarrow> (nat \<Rightarrow> nat) \<Rightarrow> nat \<Rightarrow> js_value" where
  "formatFileSize sh floor_log bytes =
     (if bytes = 0 then JStr ''0 Bytes''
      else
        let sizes = [''Bytes'', ''KB'', ''MB'', ''GB''];
            i = floor_log bytes;
            unit = (if i < length sizes then sizes ! i else ''undefined'')
        in JNum (parseFloat (toFixed sh 2 (fdiv (Num (of_nat bytes)) (rnd (1024 ^ i))) @ '' '' @ unit)))"

text \<open>The index for sizes below a terabyte.\<close>

definition kilo_log :: "nat \<Rightarrow> nat" where
  "kilo_log b = (if b < 1024 then 0 else if b < 1048576 then 1 else if b < 1073741824 then 2 else 3)"

section \<open>Properties of the number printers\<close>

lemma digit_simps:
  "digit 0 = CHR ''0''" "digit 1 = CHR ''1''" "digit 2 = CHR ''2''" "digit 3 = CHR ''3''"
  "digit 4 = CHR ''4''" "digit 5 = CHR ''5''" "digit 6 = CHR ''6''" "digit 7 = CHR ''7''"
  "digit 8 = CHR ''8''" "digit 9 = CHR ''9''"
  by (simp_all add: digit_def)

lemma show_nat_small: "n < 10 \<Longrightarrow> show_nat n = [digit n]"
  by (simp add: show_nat.simps)

lemma show_nat_step: "10 \<le> n \<Longrightarrow> show_nat n = show_nat (n div 10) @ [digit (n mod 10)]"
  by (subst show_nat.simps) simp

lemma show_nat_nonempty: "show_nat n \<noteq> []"
  by (subst show_nat.simps) simp

lemma show_nat_two: "10 \<le> n \<Longrightarrow> n < 100 \<Longrightarrow> show_nat n = [digit (n div 10), digit (n mod 10)]"
  by (simp add: show_nat_step show_nat_small)

lemma show_nat_hundreds:
  "100 \<le> n \<Longrightarrow> show_nat n = show_nat (n div 100) @ [digit (n div 10 mod 10), digit (n mod 10)]"
proof -
  assume h: "100 \<le> n"
  then have "10 \<le> n div 10" by simp
  moreover have "n div 10 div 10 = n div 100"
    by (simp add: div_mult2_eq [symmetric])
  ultimately show ?thesis using h
    by (simp add: show_nat_step [of n] show_nat_step [of "n div 10"])
qed

lemma toFixed_two:
  assumes "0 \<le> x" and "x < 10 ^ 21"
  shows "toFixed sh 2 (Num x) = two_decimals x"
proof -
  define n where "n = nat \<lfloor>x * 100 + 1 / 2\<rfloor>"
  have ab: "\<bar>x\<bar> = x" "\<not> x < 0" "\<not> 10 ^ 21 \<le> x"
    using assms by simp_all
  have tf: "toFixed sh 2 (Num x) =
      (let m = show_nat n;
           z = (if length m \<le> 2 then replicate (3 - length m) (CHR ''0'') @ m else m)
       in take (length z - 2) z @ ''.'' @ drop (length z - 2) z)"
    using ab by (simp add: toFixed_def Let_def n_def)
  consider "n < 10" | "10 \<le> n" "n < 100" | "100 \<le> n" by linarith
  then have "(let m = show_nat n;
           z = (if length m \<le> 2 then replicate (3 - length m) (CHR ''0'') @ m else m)
       in take (length z - 2) z @ ''.'' @ drop (length z - 2) z)
     = show_nat (n div 100) @ ''.'' @ [digit (n div 10 mod 10), digit (n mod 10)]"
  proof cases
    case 1
    then show ?thesis
      by (simp add: show_nat_small digit_simps numeral_3_eq_3 numeral_2_eq_2)
  next
    case 2
    then show ?thesis
      by (simp add: show_nat_two show_nat_small digit_simps)
  next
    case 3
    have "show_nat (n div 100) \<noteq> []" by (rule show_nat_nonempty)
    then have "0 < length (show_nat (n div 100))" by simp
    with 3 show ?thesis
      by (simp add: show_nat_hundreds)
  qed
  with tf show ?thesis
    by (simp add: two_decimals_def n_def Let_def)
qed

subsection \<open>Rounding\<close>

text \<open>
  The binary exponent is the right one, a rounded value is within half a unit of the
  last place, and natural numbers below \<open>2^53\<close> and powers of two are not changed by
  rounding.
\<close>

lemma pow2_powi: "pow2 e = power_int 2 e"
  by (simp add: pow2_def power_int_def field_simps)

lemma pow2_pos: "0 < pow2 e"
  by (simp add: pow2_def)

lemma pow2_add: "pow2 (a + b) = pow2 a * pow2 b"
  by (simp add: pow2_powi power_int_add)

lemma pow2_mono: "a \<le> b \<Longrightarrow> pow2 a \<le> pow2 b"
  by (simp add: pow2_powi power_int_increasing)

lemma pow2_nat: "pow2 (int n) = 2 ^ n"
  by (simp add: pow2_def)

lemma ilog2_bounds:
  assumes "0 < a"
  shows "pow2 (ilog2 a) \<le> a \<and> a < pow2 (ilog2 a + 1)"
proof -
  obtain p q where pq: "quotient_of a = (p, q)"
    by (cases "quotient_of a") auto
  then have q: "0 < q" and a: "a = of_int p / of_int q"
    using quotient_of_denom_pos [OF pq] quotient_of_div [OF pq] by simp_all
  with assms have p: "0 < p"
    by (simp add: zero_less_divide_iff)
  let ?bp = "bitlen p" and ?bq = "bitlen q"
  from bitlen_bounds [OF p] have p1: "(2 :: int) ^ nat (?bp - 1) \<le> p" and p2: "p < 2 ^ nat ?bp"
    by simp_all
  from bitlen_bounds [OF q] have q1: "(2 :: int) ^ nat (?bq - 1) \<le> q" and q2: "q < 2 ^ nat ?bq"
    by simp_all
  have bp: "1 \<le> ?bp" and bq: "1 \<le> ?bq"
    using p q bitlen_nonneg [of p] bitlen_eq_zero_iff [of p] bitlen_nonneg [of q] bitlen_eq_zero_iff [of q]
    by linarith+
  have P1: "pow2 (?bp - 1) \<le> of_int p"
  proof -
    have "(of_int (2 ^ nat (?bp - 1)) :: rat) \<le> of_int p"
      using p1 by (simp only: of_int_le_iff)
    then show ?thesis using bp by (simp add: pow2_def)
  qed
  have P2: "of_int p < pow2 ?bp"
  proof -
    have "(of_int p :: rat) < of_int (2 ^ nat ?bp)"
      using p2 by (simp only: of_int_less_iff)
    then show ?thesis using bp by (simp add: pow2_def)
  qed
  have Q1: "pow2 (?bq - 1) \<le> of_int q"
  proof -
    have "(of_int (2 ^ nat (?bq - 1)) :: rat) \<le> of_int q"
      using q1 by (simp only: of_int_le_iff)
    then show ?thesis using bq by (simp add: pow2_def)
  qed
  have Q2: "of_int q < pow2 ?bq"
  proof -
    have "(of_int q :: rat) < of_int (2 ^ nat ?bq)"
      using q2 by (simp only: of_int_less_iff)
    then show ?thesis using bq by (simp add: pow2_def)
  qed
  have qpos: "(0 :: rat) < of_int q" using q by simp
  let ?e0 = "?bp - ?bq"
  have lower: "pow2 (?e0 - 1) \<le> a"
  proof -
    have "pow2 (?e0 - 1) * of_int q \<le> pow2 (?e0 - 1) * pow2 ?bq"
      using Q2 pow2_pos [of "?e0 - 1"] by (simp add: less_imp_le)
    also have "\<dots> = pow2 (?bp - 1)"
      by (simp add: pow2_add [symmetric])
    also have "\<dots> \<le> of_int p" by (rule P1)
    finally show ?thesis
      using qpos by (simp add: a pos_le_divide_eq)
  qed
  have upper: "a < pow2 (?e0 + 1)"
  proof -
    have "of_int p < pow2 ?bp" by (rule P2)
    also have "\<dots> = pow2 (?e0 + 1) * pow2 (?bq - 1)"
      by (simp add: pow2_add [symmetric])
    also have "\<dots> \<le> pow2 (?e0 + 1) * of_int q"
      using Q1 pow2_pos [of "?e0 + 1"] by simp
    finally show ?thesis
      using qpos by (simp add: a pos_divide_less_eq)
  qed
  show ?thesis
  proof (cases "a < pow2 ?e0")
    case True
    then have "ilog2 a = ?e0 - 1"
      by (simp add: ilog2_def pq)
    with True lower show ?thesis by simp
  next
    case False
    then have "ilog2 a = ?e0"
      by (simp add: ilog2_def pq)
    with False upper show ?thesis by (simp add: not_less)
  qed
qed

lemma pow2_strict_mono: "a < b \<Longrightarrow> pow2 a < pow2 b"
  by (simp add: pow2_powi power_int_strict_increasing)

lemma ilog2_unique:
  assumes "pow2 e \<le> a" and "a < pow2 (e + 1)"
  shows "ilog2 a = e"
proof -
  have pos: "0 < a"
    using assms(1) pow2_pos [of e] by simp
  note b = ilog2_bounds [OF pos]
  have "\<not> ilog2 a < e"
  proof
    assume "ilog2 a < e"
    then have "pow2 (ilog2 a + 1) \<le> pow2 e" by (simp add: pow2_mono)
    with b assms(1) show False by simp
  qed
  moreover have "\<not> e < ilog2 a"
  proof
    assume "e < ilog2 a"
    then have "pow2 (e + 1) \<le> pow2 (ilog2 a)" by (simp add: pow2_mono)
    with b assms(2) show False by simp
  qed
  ultimately show ?thesis by simp
qed

text \<open>The rounding of a positive value, with its parts named.\<close>

lemma rnd_positive:
  assumes "0 < y"
  obtains m :: int where "0 \<le> m"
    and "\<bar>of_int m - y / pow2 (max (ilog2 y - 52) (- 1074))\<bar> \<le> 1 / 2"
    and "rnd y = (if of_int m * pow2 (max (ilog2 y - 52) (- 1074)) \<noteq> 0
                    \<and> 1024 \<le> ilog2 (of_int m * pow2 (max (ilog2 y - 52) (- 1074)))
                  then PosInf else Num (of_int m * pow2 (max (ilog2 y - 52) (- 1074))))"
proof -
  define Q where "Q = max (ilog2 y - 52) (- 1074)"
  define t where "t = y / pow2 Q"
  define f where "f = \<lfloor>t\<rfloor>"
  define r where "r = t - of_int f"
  define m where "m = (if r < 1 / 2 then f else if 1 / 2 < r then f + 1 else if even f then f else f + 1)"
  have tpos: "0 < t"
    using assms pow2_pos [of Q] by (simp add: t_def)
  then have f0: "0 \<le> f"
    by (simp add: f_def)
  have r: "0 \<le> r" "r < 1"
    unfolding r_def f_def by linarith+
  have m0: "0 \<le> m"
    using f0 by (simp add: m_def)
  have near: "\<bar>of_int m - t\<bar> \<le> 1 / 2"
    using r by (auto simp: m_def r_def)
  have abs: "\<bar>y\<bar> = y" using assms by simp
  have "rnd y = (if of_int m * pow2 Q \<noteq> 0 \<and> 1024 \<le> ilog2 (of_int m * pow2 Q)
                 then PosInf else Num (of_int m * pow2 Q))"
    unfolding rnd_def Let_def abs Q_def [symmetric] t_def [symmetric] f_def [symmetric]
      r_def [symmetric] m_def [symmetric]
    using assms by simp
  with m0 near show ?thesis
    using that [of m] by (simp add: Q_def t_def)
qed

lemma rnd_finite:
  assumes "0 < y" and "y \<le> pow2 1022"
  obtains x where "rnd y = Num x" and "0 \<le> x" and "x \<le> 2 * y + 1"
proof -
  define Q where "Q = max (ilog2 y - 52) (- 1074)"
  obtain m :: int where m0: "0 \<le> m" and near: "\<bar>of_int m - y / pow2 Q\<bar> \<le> 1 / 2"
    and eq: "rnd y = (if of_int m * pow2 Q \<noteq> 0 \<and> 1024 \<le> ilog2 (of_int m * pow2 Q)
                      then PosInf else Num (of_int m * pow2 Q))"
    using rnd_positive [OF assms(1)] unfolding Q_def by metis
  define v where "v = of_int m * pow2 Q"
  have v0: "0 \<le> v"
    using m0 pow2_pos [of Q] by (simp add: v_def)
  have "of_int m \<le> y / pow2 Q + 1 / 2"
    using near by linarith
  then have "of_int m * pow2 Q \<le> (y / pow2 Q + 1 / 2) * pow2 Q"
    using pow2_pos [of Q] by (simp add: mult_le_cancel_right)
  also have "\<dots> = y + pow2 Q / 2"
    using pow2_pos [of Q] by (simp add: field_simps)
  finally have vy: "v \<le> y + pow2 Q / 2"
    by (simp add: v_def)
  have Qle: "pow2 Q \<le> y + 1"
  proof (cases "ilog2 y - 52 \<le> - 1074")
    case True
    then have "Q = - 1074" by (simp add: Q_def)
    then have "pow2 Q \<le> 1" by (simp add: pow2_def)
    with assms(1) show ?thesis by simp
  next
    case False
    then have "Q = ilog2 y - 52" by (simp add: Q_def)
    then have "pow2 Q \<le> pow2 (ilog2 y)" by (simp add: pow2_mono)
    also have "\<dots> \<le> y" using ilog2_bounds [OF assms(1)] by simp
    finally show ?thesis by simp
  qed
  from vy Qle assms(1) have bound: "v \<le> 2 * y + 1"
    by linarith
  have small: "\<not> (v \<noteq> 0 \<and> 1024 \<le> ilog2 v)"
  proof
    assume a: "v \<noteq> 0 \<and> 1024 \<le> ilog2 v"
    with v0 have "0 < v" by simp
    from ilog2_bounds [OF this] have "pow2 (ilog2 v) \<le> v" by simp
    moreover have "pow2 1024 \<le> pow2 (ilog2 v)" using a by (simp add: pow2_mono)
    ultimately have "pow2 1024 \<le> 2 * y + 1" using bound by simp
    moreover have "2 * y + 1 \<le> 2 * pow2 1022 + 1" using assms(2) by simp
    moreover have "2 * pow2 1022 + 1 < pow2 1024" by (simp add: pow2_def)
    ultimately show False by simp
  qed
  from eq small have "rnd y = Num v"
    by (simp add: v_def)
  with v0 bound show ?thesis
    using that [of v] by simp
qed

lemma rnd_multiple:
  assumes "0 < a" and "a = of_int m * pow2 (max (ilog2 a - 52) (- 1074))"
  shows "rnd a = (if 1024 \<le> ilog2 a then PosInf else Num a)"
proof -
  define Q where "Q = max (ilog2 a - 52) (- 1074)"
  have abs: "\<bar>a\<bar> = a"
    using assms(1) by simp
  have a: "a = of_int m * pow2 Q"
    using assms(2) by (simp add: Q_def)
  have t: "a / pow2 Q = of_int m"
    using pow2_pos [of Q] by (subst a) simp
  have "rnd a = (if of_int m * pow2 Q \<noteq> 0 \<and> 1024 \<le> ilog2 (of_int m * pow2 Q)
                 then PosInf else Num (of_int m * pow2 Q))"
    unfolding rnd_def Let_def abs Q_def [symmetric] t
    using assms(1) by simp
  also have "\<dots> = (if 1024 \<le> ilog2 a then PosInf else Num a)"
    using assms(1) by (simp add: a [symmetric])
  finally show ?thesis .
qed

lemma rnd_power_of_two: "rnd (2 ^ k) = (if 1024 \<le> k then PosInf else Num (2 ^ k))"
proof -
  have a: "(2 :: rat) ^ k = pow2 (int k)"
    by (simp add: pow2_nat)
  have il: "ilog2 (pow2 (int k)) = int k"
    by (rule ilog2_unique) (simp_all add: pow2_strict_mono)
  have q: "max (int k - 52) (- 1074) = int k - 52"
    by simp
  have "pow2 (int k) = pow2 52 * pow2 (int k - 52)"
    by (simp add: pow2_add [symmetric])
  also have "pow2 52 = of_int (2 ^ 52)"
    by (simp add: pow2_def)
  finally have split: "pow2 (int k) = of_int (2 ^ 52) * pow2 (int k - 52)" .
  have m: "pow2 (int k) = of_int (2 ^ 52) * pow2 (max (ilog2 (pow2 (int k)) - 52) (- 1074))"
    unfolding il q by (rule split)
  from rnd_multiple [OF pow2_pos m] show ?thesis
    by (simp add: a il)
qed

lemma ilog2_of_nat:
  assumes "0 < n"
  shows "ilog2 (of_nat n) = bitlen (int n) - 1"
proof -
  have q: "quotient_of (of_nat n) = (int n, 1)"
    using quotient_of_int [of "int n"] by simp
  have b1: "bitlen 1 = 1"
    by (simp add: bitlen_alt_def)
  have pos: "0 < int n" using assms by simp
  from bitlen_bounds [OF pos] have lo: "2 ^ nat (bitlen (int n) - 1) \<le> int n"
    by simp
  have ge: "0 \<le> bitlen (int n) - 1"
    using pos bitlen_nonneg [of "int n"] bitlen_eq_zero_iff [of "int n"] by linarith
  have "(2 :: rat) ^ nat (bitlen (int n) - 1) \<le> of_nat n"
  proof -
    from lo have "(of_int (2 ^ nat (bitlen (int n) - 1)) :: rat) \<le> of_int (int n)"
      by (simp only: of_int_le_iff)
    then show ?thesis by simp
  qed
  then have "\<not> (of_nat n :: rat) < pow2 (bitlen (int n) - 1)"
    using ge by (simp add: pow2_def not_less)
  then show ?thesis
    by (simp add: ilog2_def q b1)
qed

lemma rnd_of_nat:
  assumes "n < 2 ^ 53"
  shows "rnd (of_nat n) = Num (of_nat n)"
proof (cases "n = 0")
  case True
  then show ?thesis by (simp add: rnd_def)
next
  case False
  then have pos: "0 < n" by simp
  define e where "e = bitlen (int n) - 1"
  have il: "ilog2 (of_nat n) = e"
    unfolding e_def by (rule ilog2_of_nat [OF pos])
  have "bitlen (int n) \<le> 53"
    using assms by (simp add: bitlen_le_iff_power)
  moreover have "1 \<le> bitlen (int n)"
    using pos bitlen_nonneg [of "int n"] bitlen_eq_zero_iff [of "int n"] by linarith
  ultimately have range: "0 \<le> e" "e \<le> 52"
    by (simp_all add: e_def)
  then have q: "max (e - 52) (- 1074) = e - 52"
    by simp
  have p: "pow2 (e - 52) = 1 / 2 ^ nat (52 - e)"
  proof (cases "e = 52")
    case True
    then show ?thesis by (simp add: pow2_def)
  next
    case False
    with range have "\<not> 0 \<le> e - 52" and "- (e - 52) = 52 - e" by simp_all
    then show ?thesis by (simp add: pow2_def)
  qed
  have m: "(of_nat n :: rat) = of_int (int n * 2 ^ nat (52 - e)) * pow2 (max (ilog2 (of_nat n) - 52) (- 1074))"
    unfolding il q p by simp
  have big: "ilog2 (of_nat n :: rat) < 1024"
    using il range by simp
  have "(0 :: rat) < of_nat n" using pos by simp
  from rnd_multiple [OF this m] big show ?thesis by simp
qed

lemma fadd_nat: "a + b < 2 ^ 53 \<Longrightarrow> fadd (Num (of_nat a)) (Num (of_nat b)) = Num (of_nat (a + b))"
  using rnd_of_nat [of "a + b"] by simp

lemma fmul_nat: "a * b < 2 ^ 53 \<Longrightarrow> fmul (Num (of_nat a)) (Num (of_nat b)) = Num (of_nat (a * b))"
  using rnd_of_nat [of "a * b"] by simp

lemma foldl_fadd_nat:
  "acc + sum_list cs < 2 ^ 53 \<Longrightarrow>
     foldl fadd (Num (of_nat acc)) (map (\<lambda>c. Num (of_nat c)) cs) = Num (of_nat (acc + sum_list cs))"
proof (induction cs arbitrary: acc)
  case Nil
  then show ?case by simp
next
  case (Cons c cs)
  from Cons.prems have "acc + c < 2 ^ 53" and "(acc + c) + sum_list cs < 2 ^ 53"
    by simp_all
  with Cons.IH [of "acc + c"] show ?case
    by (simp add: fadd_nat add.assoc del: fadd.simps)
qed

section \<open>Properties of the outliers renderers\<close>

text \<open>
  C9. For a report with at least one column \<open>displayOutliers\<close> of \<open>app.js\<close> emits one
  card per column, in the order of the columns. The heading of a column's card bears the
  column's name, and it has the class \<open>warning\<close> exactly when the column's percentage is
  strictly greater than 5, and the class \<open>info\<close> otherwise; the class depends on nothing
  but the percentage.
\<close>

theorem displayOutliers_app_severity:
  assumes "i < length report"
    and "percentage (snd (report ! i)) = Num p"
  shows "\<exists>cs. displayOutliers_app sh report = Cards cs
            \<and> length cs = length report
            \<and> h4_text (cs ! i) = fst (report ! i)
            \<and> h4_class (cs ! i) = (if 5 < p then ''warning'' else ''info'')"
proof -
  from assms(1) have "report \<noteq> []"
    by auto
  then have cs: "displayOutliers_app sh report = Cards (map (outlierCard sh) report)"
    by (simp add: displayOutliers_app_def)
  obtain c d where cd: "report ! i = (c, d)"
    by (cases "report ! i")
  with assms(2) have "percentage d = Num p"
    by simp
  with cd assms(1) have "h4_text (map (outlierCard sh) report ! i) = fst (report ! i)
      \<and> h4_class (map (outlierCard sh) report ! i) = (if 5 < p then ''warning'' else ''info'')"
    by (simp add: outlierCard_def)
  with cs show ?thesis
    by simp
qed

theorem displayOutliers_app_severity_witness:
  "1 < length example_report
   \<and> percentage (snd (example_report ! 1)) = Num 5
   \<and> (\<exists>cs. displayOutliers_app (\<lambda>_. []) example_report = Cards cs
          \<and> length cs = 2
          \<and> h4_text (cs ! 1) = ''fare''
          \<and> h4_class (cs ! 1) = ''info'')"
proof -
  have b: "1 < length example_report"
    by (simp add: example_report_def)
  have c: "percentage (snd (example_report ! 1)) = Num 5"
    by (simp add: example_report_def)
  have d: "length example_report = 2" and e: "fst (example_report ! 1) = ''fare''"
    by (simp_all add: example_report_def)
  from displayOutliers_app_severity [OF b c, of "\<lambda>_. []"] b c d e show ?thesis
    by simp
qed

text \<open>A column above the threshold.\<close>

lemma displayOutliers_app_warning:
  "displayOutliers_app (\<lambda>_. []) [(''age'', \<lparr>count = Num 3, percentage = Num (11 / 2), outlier_values = []\<rparr>)]
     = Cards [\<lparr> h4_class = ''warning'', h4_text = ''age'', stat_value = ''3 outliers (5.50%)'',
                 stat_description = ''<strong>Sample values:</strong> '' \<rparr>]"
proof -
  have "toFixed (\<lambda>_. []) 2 (Num (11 / 2)) = ''5.50''"
    by code_simp
  moreover have "numberToString (\<lambda>_. []) (Num 3) = ''3''"
    by (simp add: numberToString_def show_nat_small digit_def)
  ultimately show ?thesis
    by (simp add: displayOutliers_app_def outlierCard_def)
qed

section \<open>Errors and the session state\<close>

lemma fileExtension_data_csv: "fileExtension ''data.csv'' = ''csv''"
  by (simp add: fileExtension_def toLowerCase_def)

lemma processFiles_part000_keeps:
  "upload_failed uo \<Longrightarrow> fst (processFiles_part000 r cd files uo) = cd"
  by (auto simp: processFiles_part000_def Let_def
      split: list.splits upload_outcome.splits fetch_result.splits reply.splits prod.splits)

lemma processFiles_script11_keeps:
  "upload_failed uo \<Longrightarrow> fst (processFiles_script11 r cd files uo) = cd"
  by (auto simp: processFiles_script11_def Let_def
      split: option.splits list.splits upload_outcome.splits fetch_result.splits reply.splits prod.splits)

lemma applyFilter_script11_keeps:
  "fetch_failed fo \<Longrightarrow> fst (applyFilter_script11 r cd c lo hi fo) = cd"
  by (auto simp: applyFilter_script11_def Let_def
      split: fetch_result.splits reply.splits prod.splits)

lemma performAnalysis_part000_keeps: "fst (performAnalysis_part000 r cd operation fo) = cd"
  by (auto simp: performAnalysis_part000_def Let_def
      split: fetch_result.splits reply.splits prod.splits)

lemma performAnalysis_script11_keeps: "fst (performAnalysis_script11 r cd operation fo) = cd"
  by (auto simp: performAnalysis_script11_def Let_def
      split: fetch_result.splits reply.splits prod.splits)

lemma load_app_keeps: "fst (load_app op r st fo) = st"
  by (auto simp: load_app_def Let_def
      split: fetch_result.splits reply.splits prod.splits)

lemma uploadFile_keeps: "xhr_failed xo \<Longrightarrow> fst (uploadFile r st xo so) = st"
  by (auto simp: uploadFile_def Let_def
      split: xhr_outcome.splits reply.splits prod.splits)

text \<open>
  A user action that fails by the timeout, by a network or HTTP failure, by an error that
  the server reports or by a body that does not parse leaves the session state as it was:
  \<open>currentData\<close> in the two scripts, \<open>currentFileId\<close> and \<open>availableColumns\<close> in \<open>app.js\<close>.
\<close>

lemma errors_keep_session_state:
  assumes "upload_failed uo" and "fetch_failed fo" and "xhr_failed xo"
  shows "fst (processFiles_part000 r1 cd files uo) = cd
       \<and> fst (processFiles_script11 r1 cd files' uo) = cd
       \<and> fst (applyFilter_script11 r1 cd c lo hi fo) = cd
       \<and> fst (performAnalysis_part000 r2 cd operation fo) = cd
       \<and> fst (performAnalysis_script11 r2 cd operation fo) = cd
       \<and> fst (load_app op r3 st fo) = st
       \<and> fst (uploadFile r3 st xo fo') = st"
  using assms
  by (simp add: processFiles_part000_keeps processFiles_script11_keeps applyFilter_script11_keeps
      performAnalysis_part000_keeps performAnalysis_script11_keeps load_app_keeps uploadFile_keeps)

lemma errors_keep_session_state_example:
  "upload_failed (TimerFirst ''The user aborted a request.'' :: unit upload_outcome)
   \<and> fetch_failed (Responded True ''OK'' (Json error_body))
   \<and> xhr_failed (XhrLoad 500 (Malformed ''Unexpected token'') :: unit xhr_outcome)
   \<and> fst (processFiles_part000 no_render (Obj ()) [''data.csv''] (TimerFirst ''The user aborted a request.'')) = Obj ()
   \<and> fst (processFiles_script11 no_render (Obj ()) (Some [''data.csv'']) (TimerFirst ''The user aborted a request.'')) = Obj ()
   \<and> fst (applyFilter_script11 no_render (Obj ()) (Some ''age'') (Some ''1'') None (Responded True ''OK'' (Json error_body))) = Obj ()
   \<and> fst (uploadFile (\<lambda>_. no_render) loaded_state (XhrLoad 500 (Malformed ''Unexpected token'')) (Rejected [])) = loaded_state"
proof -
  have a: "upload_failed (TimerFirst ''The user aborted a request.'' :: unit upload_outcome)"
    by simp
  have b: "fetch_failed (Responded True ''OK'' (Json error_body))"
    by (simp add: error_body_def)
  have c: "xhr_failed (XhrLoad 500 (Malformed ''Unexpected token'') :: unit xhr_outcome)"
    by simp
  from errors_keep_session_state [OF a b c, of no_render "Obj ()" "[''data.csv'']" "Some [''data.csv'']"
      "Some ''age''" "Some ''1''" None "\<lambda>_. no_render" "''outliers''" Outliers "\<lambda>_. no_render" loaded_state "Rejected []"]
    a b c
  show ?thesis by simp
qed

text \<open>
  C7 asks that the session state is updated on a successful response only and that an
  action which ends in an error leaves it as it was. \<open>script (11).js\<close> breaks this: it
  assigns \<open>currentData\<close> from the body before it looks at the payload. With a dataset
  loaded, a response with a success status whose body parses, reports no error and holds
  no analysis makes \<open>processFiles\<close> overwrite the dataset by \<open>undefined\<close>; the rendering
  then throws and the action ends in the alert of the error handler. \<open>applyFilter\<close> does
  the same with a body that holds no result. The first script tests the analysis before
  it stores it, and keeps the dataset on the same response.
\<close>

theorem script11_stores_absent_payload:
  "processFiles_script11 no_render (Obj ()) (Some [''data.csv''])
     (Settled (Responded True ''OK'' (Json (error_body\<lparr> error := None \<rparr>))))
     = (Undefined, [ShowLoading, SetTimeout, Fetch ''/upload'' ''upload'', ClearTimeout,
                    Alert (''Error processing file: '' @ typeError ''undefined'' ''basic_statistics''),
                    HideLoading])
   \<and> processFiles_part000 no_render (Obj ()) [''data.csv'']
       (Settled (Responded True ''OK'' (Json (error_body\<lparr> error := None \<rparr>))))
     = (Obj (), [ShowLoading, SetTimeout, Fetch ''http://localhost:5000/upload'' ''upload'', ClearTimeout,
                 Alert ''Error processing file: No analysis data received from server'',
                 ClearTimeout, HideLoading])"
  by (simp add: processFiles_script11_def processFiles_part000_def error_body_def fileExtension_data_csv)

text \<open>The filter of \<open>script (11).js\<close>, on a body that holds no result.\<close>

lemma applyFilter_script11_stores_absent_result:
  "applyFilter_script11 no_render (Obj ()) (Some ''age'') (Some ''1'') None
       (Responded True ''OK'' (Json (error_body\<lparr> error := None \<rparr>)))
     = (Undefined, [ShowLoading, Fetch ''/analyze'' ''filter'',
                    Alert (''Error applying filter: '' @ typeError ''undefined'' ''basic_statistics''),
                    HideLoading])"
  by (simp add: applyFilter_script11_def error_body_def)

section \<open>Operations without a dataset\<close>

text \<open>
  C1 as stated fails. In the first script \<open>performAnalysis\<close> exempts \<open>basic_stats\<close> from
  its test, so with no dataset loaded the request is sent. In \<open>app.js\<close> a loader without
  a dataset returns without any effect: no request, and no condition shown to anybody.
\<close>

theorem performAnalysis_part000_basic_stats_fetches:
  "performAnalysis_part000 (\<lambda>_. no_render) Null ''basic_stats'' (Rejected ''Failed to fetch'')
     = (Null, [ShowLoading, Fetch ''http://localhost:5000/analyze'' ''basic_stats'',
               Alert ''Error performing basic_stats: Failed to fetch'', HideLoading])
   \<and> network_calls (snd (performAnalysis_part000 (\<lambda>_. no_render) Null ''basic_stats''
                            (Rejected ''Failed to fetch''))) = 1
   \<and> loadOutliers (\<lambda>_. no_render) empty_state (Rejected ''Failed to fetch'') = (empty_state, [])"
  by (simp add: performAnalysis_part000_def network_calls_def loadOutliers_def load_app_def
      empty_state_def)

text \<open>
  C1, amended. With no dataset loaded no request is sent by any of the seven loaders of
  \<open>app.js\<close>, which return without a message, by \<open>performAnalysis\<close> of \<open>script (11).js\<close>
  for any operation, and by \<open>performAnalysis\<close> of the first script for any operation but
  \<open>basic_stats\<close>; the two scripts alert "Please upload data first".
\<close>

theorem no_dataset_no_request:
  assumes "\<not> truthy_str (currentFileId st)" and "\<not> truthy cd" and "operation \<noteq> ''basic_stats''"
  shows "load_app op r1 st o1 = (st, [])
       \<and> performAnalysis_script11 r2 cd anyop o2 = (cd, [Alert ''Please upload data first'', HideLoading])
       \<and> performAnalysis_part000 r3 cd operation o3 = (cd, [Alert ''Please upload data first'', HideLoading])
       \<and> network_calls (snd (load_app op r1 st o1)) = 0
       \<and> network_calls (snd (performAnalysis_script11 r2 cd anyop o2)) = 0
       \<and> network_calls (snd (performAnalysis_part000 r3 cd operation o3)) = 0"
  using assms
  by (simp add: load_app_def performAnalysis_script11_def performAnalysis_part000_def network_calls_def)

theorem no_dataset_no_request_witness:
  "\<not> truthy_str (currentFileId empty_state) \<and> \<not> truthy (Null :: unit jsref)
   \<and> ''outliers'' \<noteq> ''basic_stats''
   \<and> loadDataQuality (\<lambda>_. no_render) empty_state (Rejected []) = (empty_state, [])
   \<and> performAnalysis_script11 (\<lambda>_. no_render) Null ''basic_stats'' (Rejected [])
        = (Null, [Alert ''Please upload data first'', HideLoading])
   \<and> performAnalysis_part000 (\<lambda>_. no_render) Null ''outliers'' (Rejected [])
        = (Null, [Alert ''Please upload data first'', HideLoading])"
proof -
  have a: "\<not> truthy_str (currentFileId empty_state)"
    by (simp add: empty_state_def)
  have b: "\<not> truthy (Null :: unit jsref)"
    by simp
  have c: "''outliers'' \<noteq> ''basic_stats''"
    by simp
  from no_dataset_no_request [OF a b c, of DataQuality "\<lambda>_. no_render" "Rejected []"
      "\<lambda>_. no_render" "''basic_stats''" "Rejected []" "\<lambda>_. no_render" "Rejected []"] a b c
  show ?thesis by (simp add: loadDataQuality_def)
qed

section \<open>The timer of an upload\<close>

lemma timer_step_clear: "timer_step t ClearTimeout \<noteq> Some Pending"
  by (cases "(t, ClearTimeout)" rule: timer_step.cases) auto

lemma timer_after_finally:
  "timer_after (evs @ [ClearTimeout, HideLoading]) \<noteq> Some Pending"
proof -
  have "timer_step t HideLoading = t" for t
    by (cases "(t, HideLoading)" rule: timer_step.cases) auto
  then show ?thesis
    by (simp add: timer_after_def timer_step_clear)
qed

lemma processFiles_part000_trace:
  "snd (processFiles_part000 r cd files uo) = [Alert ''No file selected.'']
   \<or> snd (processFiles_part000 r cd files uo)
        = [Alert ''Unsupported file format. Please use CSV, JSON, or Excel (.xlsx).'']
   \<or> (\<exists>evs. snd (processFiles_part000 r cd files uo) = evs @ [ClearTimeout, HideLoading])"
  by (auto simp: processFiles_part000_def Let_def
      split: list.splits upload_outcome.splits fetch_result.splits reply.splits prod.splits option.splits)

lemma processFiles_part000_timer:
  "timer_after (snd (processFiles_part000 r cd files uo)) \<noteq> Some Pending"
  using processFiles_part000_trace [of r cd files uo] timer_after_finally
  by (auto simp: timer_after_def)

text \<open>
  C3 holds in the first script, by the lemma above. In \<open>script (11).js\<close> the timer is
  cleared in the first callback of the promise only: when the request is rejected by the
  network the callback does not run, the upload ends with its timer pending, and the
  timer fires later with a second alert.
\<close>

theorem processFiles_script11_timer_leak:
  "snd (processFiles_script11 no_render Null (Some [''data.csv'']) (Settled (Rejected ''Failed to fetch'')))
     = [ShowLoading, SetTimeout, Fetch ''/upload'' ''upload'',
        Alert ''Error processing file: Failed to fetch'', HideLoading]
   \<and> timer_after (snd (processFiles_script11 no_render Null (Some [''data.csv''])
                         (Settled (Rejected ''Failed to fetch'')))) = Some Pending
   \<and> late_timer (snd (processFiles_script11 no_render Null (Some [''data.csv''])
                         (Settled (Rejected ''Failed to fetch''))))
     = [ShowLoading, SetTimeout, Fetch ''/upload'' ''upload'',
        Alert ''Error processing file: Failed to fetch'', HideLoading,
        TimerFired, Abort, Alert ''Upload request timed out.'', HideLoading]"
  by (simp add: processFiles_script11_def fileExtension_def toLowerCase_def timer_after_def late_timer_def)

section \<open>Errors reported by the server\<close>




section \<open>The scatter renderers\<close>

text \<open>
  C4 as stated fails. \<open>createScatterPlot\<close> tests the rows for presence, and an empty
  array is present: it constructs a chart without points. \<open>displayScatterPlot\<close> of
  \<open>app.js\<close> replaces an absent \<open>y_column\<close> by the second numeric column and draws.
\<close>

theorem scatter_chart_is_constructed:
  "fst (snd (createScatterPlot_part000 initial_charts (Obj empty_scatter)))
     = [ChartCreate ''chart3'' 0 (ScatterChart ''fare vs age'' [])]
   \<and> fst (snd (displayScatterPlot initial_charts age_fare_state scatter_without_y))
     = [ChartCreate ''scatter-chart'' 0 (ScatterChart ''age vs fare'' [(NumCell (Num 31), NumCell (Num 7))])]"
  by (simp add: createScatterPlot_part000_def displayScatterPlot_def renderScatterChart_def
      initial_charts_def empty_scatter_def scatter_without_y_def age_fare_state_def
      destroy_def construct_def select_value_def field_def)

text \<open>
  C4, amended. For a payload that is absent, or lacks its \<open>x_column\<close>, its \<open>y_column\<close>
  or its rows, \<open>createScatterPlot\<close> constructs no chart: it alerts that there is not
  enough valid data, or that its canvas is missing. For a payload with no rows
  \<open>displayScatterPlot\<close> of \<open>app.js\<close> constructs no chart: with its canvas in the page it
  puts its placeholder in place of the canvas, or the error of a payload that carries
  one; without the canvas it throws.
\<close>

theorem scatter_needs_columns_and_rows:
  assumes "scatterData = Null \<or> scatterData = Undefined
         \<or> (\<exists>sd. scatterData = Obj sd
               \<and> (\<not> truthy_str (x_column sd) \<or> \<not> truthy_str (y_column sd) \<or> scatter_rows sd = None))"
    and "scatter_rows sd' = Some []"
  shows "createScatterPlot_part000 st scatterData
           = (st, if ''chart3'' \<in> set (canvases st)
                  then destroy st ''chart3'' @ [Alert ''Not enough valid data for scatter plot.'']
                  else [Alert ''Visualization error: Scatter plot canvas not found.''], None)
       \<and> \<not> list_ex is_ChartCreate (fst (snd (createScatterPlot_part000 st scatterData)))
       \<and> displayScatterPlot st' session sd'
           = (if ''scatter-chart'' \<in> set (canvases st')
              then (st'\<lparr> canvases := removeAll ''scatter-chart'' (canvases st') \<rparr>,
                    if truthy_str (scatter_error sd')
                    then destroy st' ''scatter-chart'' @ [Html ''scatter-chart'' (the (scatter_error sd'))]
                    else [Html ''scatter-chart'' ''Need at least two numeric columns for scatter plot''],
                    None)
              else (st', if truthy_str (scatter_error sd') then destroy st' ''scatter-chart'' else [],
                    Some (typeError ''null'' ''parentElement'')))
       \<and> \<not> list_ex is_ChartCreate (fst (snd (displayScatterPlot st' session sd')))"
proof -
  have 1: "createScatterPlot_part000 st scatterData
           = (st, if ''chart3'' \<in> set (canvases st)
                  then destroy st ''chart3'' @ [Alert ''Not enough valid data for scatter plot.'']
                  else [Alert ''Visualization error: Scatter plot canvas not found.''], None)"
    using assms(1)
    by (auto simp: createScatterPlot_part000_def Let_def split: jsref.splits option.splits)
  have d: "\<not> list_ex is_ChartCreate (destroy s slot)" for s slot
    by (simp add: destroy_def split: option.splits)
  have 2: "\<not> list_ex is_ChartCreate (fst (snd (createScatterPlot_part000 st scatterData)))"
    unfolding 1 using d by simp
  have 3: "displayScatterPlot st' session sd'
           = (if ''scatter-chart'' \<in> set (canvases st')
              then (st'\<lparr> canvases := removeAll ''scatter-chart'' (canvases st') \<rparr>,
                    if truthy_str (scatter_error sd')
                    then destroy st' ''scatter-chart'' @ [Html ''scatter-chart'' (the (scatter_error sd'))]
                    else [Html ''scatter-chart'' ''Need at least two numeric columns for scatter plot''],
                    None)
              else (st', if truthy_str (scatter_error sd') then destroy st' ''scatter-chart'' else [],
                    Some (typeError ''null'' ''parentElement'')))"
    using assms(2) by (simp add: displayScatterPlot_def)
  have 4: "\<not> list_ex is_ChartCreate (fst (snd (displayScatterPlot st' session sd')))"
    unfolding 3 using d by simp
  from 1 2 3 4 show ?thesis by blast
qed

theorem scatter_needs_columns_and_rows_witness:
  "\<not> truthy_str (y_column scatter_without_y)
   \<and> scatter_rows empty_scatter = Some []
   \<and> createScatterPlot_part000 initial_charts (Obj scatter_without_y)
        = (initial_charts, [Alert ''Not enough valid data for scatter plot.''], None)
   \<and> displayScatterPlot initial_charts age_fare_state empty_scatter
        = (initial_charts\<lparr> canvases := [''chart1'', ''chart2'', ''chart3'', ''histogram-chart''] \<rparr>,
           [Html ''scatter-chart'' ''Need at least two numeric columns for scatter plot''], None)"
proof -
  have y: "\<not> truthy_str (y_column scatter_without_y)"
    by (simp add: scatter_without_y_def)
  then have b: "Obj scatter_without_y = Null \<or> Obj scatter_without_y = Undefined
         \<or> (\<exists>sd. Obj scatter_without_y = Obj sd
               \<and> (\<not> truthy_str (x_column sd) \<or> \<not> truthy_str (y_column sd) \<or> scatter_rows sd = None))"
    by simp
  have e: "scatter_rows empty_scatter = Some []"
    and n: "\<not> truthy_str (scatter_error empty_scatter)"
    by (simp_all add: empty_scatter_def)
  from scatter_needs_columns_and_rows [where st = initial_charts and st' = initial_charts
      and session = age_fare_state, OF b e] y e n
  show ?thesis by (simp add: destroy_def initial_charts_def)
qed

section \<open>One chart per slot\<close>

lemma live_in_slot_live: "live_in slot L = length (slot_live slot L)"
  by (simp add: live_in_def slot_live_def)

lemma registered_le1: "registered st L \<Longrightarrow> live_in slot L \<le> Suc 0"
proof -
  assume "registered st L"
  then have "slot_live slot L = [] \<or> (\<exists>h. slot_live slot L = [(slot, h)])"
    by (auto simp: registered_def)
  then show ?thesis
    by (auto simp: live_in_slot_live)
qed

lemma slot_live_filter:
  "slot_live slot (filter (\<lambda>(s, k). k \<noteq> h) L) = filter (\<lambda>(s, k). k \<noteq> h) (slot_live slot L)"
  by (induction L) (auto simp: slot_live_def)

lemma peak_append:
  "peak s L (a @ b) = max (peak s L a) (peak s (live_after L a) b)"
proof (induction a arbitrary: L)
  case Nil
  have "live_in s L \<le> peak s L b" by (cases b) simp_all
  then show ?case by (simp add: live_after_def)
next
  case (Cons e a)
  then show ?case by (simp add: live_after_def max.assoc)
qed

lemma live_after_append: "live_after L (a @ b) = live_after (live_after L a) b"
  by (simp add: live_after_def)

lemma sound_destroy:
  assumes "registered st L"
  shows "sound st L st (destroy st slot) \<and> slot_live slot (live_after L (destroy st slot)) = []"
proof (cases "charts st slot")
  case None
  with assms show ?thesis
    by (simp add: sound_def destroy_def live_after_def registered_le1)
       (auto simp: registered_def)
next
  case (Some h)
  let ?L' = "filter (\<lambda>(s, k). k \<noteq> h) L"
  have reg: "registered st ?L'"
    unfolding registered_def
  proof
    fix s
    from assms have "slot_live s L = [] \<or> (\<exists>k. charts st s = Some k \<and> slot_live s L = [(s, k)])"
      by (simp add: registered_def)
    then show "slot_live s ?L' = [] \<or> (\<exists>k. charts st s = Some k \<and> slot_live s ?L' = [(s, k)])"
      by (auto simp: slot_live_filter split: if_splits)
  qed
  from assms have "slot_live slot L = [] \<or> slot_live slot L = [(slot, h)]"
    using Some by (auto simp: registered_def)
  then have empty: "slot_live slot ?L' = []"
    by (auto simp: slot_live_filter)
  from reg assms empty Some show ?thesis
    by (simp add: sound_def destroy_def live_after_def registered_le1)
qed

lemma sound_construct:
  assumes "registered st L" and "slot_live slot L = []" and "construct st slot cfg = (st', c)"
  shows "sound st L st' c \<and> slot_live slot (live_after L c) = [(slot, next_id st)]"
proof -
  from assms(3) have st': "st' = st\<lparr> charts := (charts st)(slot \<mapsto> next_id st), next_id := Suc (next_id st) \<rparr>"
    and c: "c = [ChartCreate slot (next_id st) cfg]"
    by (auto simp: construct_def)
  let ?L' = "L @ [(slot, next_id st)]"
  have here: "slot_live slot ?L' = [(slot, next_id st)]"
    using assms(2) by (simp add: slot_live_def)
  have reg: "registered st' ?L'"
    unfolding registered_def
  proof
    fix s
    show "slot_live s ?L' = [] \<or> (\<exists>k. charts st' s = Some k \<and> slot_live s ?L' = [(s, k)])"
    proof (cases "s = slot")
      case True
      with here st' show ?thesis by simp
    next
      case False
      then have "slot_live s ?L' = slot_live s L" by (simp add: slot_live_def)
      moreover have "charts st' s = charts st s" using False st' by simp
      ultimately show ?thesis using assms(1) by (simp add: registered_def)
    qed
  qed
  from reg here assms(1) c show ?thesis
    by (simp add: sound_def live_after_def registered_le1)
qed

lemma sound_append:
  assumes "sound st L st' a" and "sound st' (live_after L a) st'' b"
  shows "sound st L st'' (a @ b)"
  using assms by (simp add: sound_def peak_append live_after_append)

lemma sound_Alert: "registered st L \<Longrightarrow> sound st L st [Alert m]"
  by (simp add: sound_def live_after_def registered_le1)

lemma sound_Html: "registered st L \<Longrightarrow> sound st L (st\<lparr> canvases := cs \<rparr>) [Html a b]"
  by (simp add: sound_def live_after_def registered_le1 registered_def)

lemma sound_Nil: "registered st L \<Longrightarrow> sound st L st []"
  by (simp add: sound_def live_after_def registered_le1)

lemma sound_registered: "sound st L st' evs \<Longrightarrow> registered st' (live_after L evs)"
  by (simp add: sound_def)

text \<open>Destroy, then maybe something quiet, then construct.\<close>

lemma sound_destroy_construct:
  assumes "registered st L" and "construct st slot cfg = (st', c)"
  shows "sound st L st' (destroy st slot @ c)
       \<and> slot_live slot (live_after L (destroy st slot @ c)) = [(slot, next_id st)]"
proof -
  from sound_destroy [OF assms(1), of slot]
  have d: "sound st L st (destroy st slot)" and e: "slot_live slot (live_after L (destroy st slot)) = []"
    by simp_all
  from sound_construct [OF sound_registered [OF d] e assms(2)]
  have "sound st (live_after L (destroy st slot)) st' c"
    and "slot_live slot (live_after (live_after L (destroy st slot)) c) = [(slot, next_id st)]"
    by simp_all
  with d show ?thesis
    by (simp add: sound_append live_after_append)
qed

lemma sound_destroy_only:
  "registered st L \<Longrightarrow> sound st L st (destroy st slot)"
  using sound_destroy [of st L slot] by simp

lemma sound_destroy_then:
  assumes "registered st L" and "sound st (live_after L (destroy st slot)) st' evs"
  shows "sound st L st' (destroy st slot @ evs)"
  by (rule sound_append [OF sound_destroy_only [OF assms(1)] assms(2)])

lemma sound_destroy_Alert:
  assumes "registered st L"
  shows "sound st L st (destroy st slot @ [Alert m])"
  by (rule sound_destroy_then [OF assms sound_Alert [OF sound_registered [OF sound_destroy_only [OF assms]]]])

lemma sound_destroy_Html:
  assumes "registered st L"
  shows "sound st L (st\<lparr> canvases := cs \<rparr>) (destroy st slot @ [Html a b])"
  by (rule sound_destroy_then [OF assms sound_Html [OF sound_registered [OF sound_destroy_only [OF assms]]]])

lemma render_sound:
  assumes "registered st L" and "render st c = (st', evs, thrown)"
  shows "sound st L st' evs"
proof (cases c)
  case (ColumnDistribution stats)
  with assms show ?thesis
    by (auto simp: createColumnDistributionChart_part000_def Let_def sound_Nil sound_destroy_construct
        split: if_splits prod.splits)
next
  case (DataType stats)
  with assms show ?thesis
    by (auto simp: createDataTypeChart_part000_def Let_def sound_Nil sound_destroy_construct
        split: if_splits prod.splits)
next
  case (SampleHistogram d)
  with assms show ?thesis
    by (auto simp: createSampleHistogram_part000_def Let_def sound_Nil sound_destroy_Alert
        sound_destroy_construct
        split: if_splits option.splits list.splits prod.splits)
next
  case (ScatterPlot d)
  with assms show ?thesis
    by (auto simp: createScatterPlot_part000_def Let_def sound_Alert sound_destroy_Alert
        sound_destroy_construct
        split: if_splits option.splits jsref.splits prod.splits)
next
  case (DisplayHistogram d)
  with assms show ?thesis
    by (auto simp: displayHistogram_def renderHistogramChart_def Let_def sound_destroy_only
        sound_destroy_Html sound_destroy_construct
        split: if_splits list.splits prod.splits)
next
  case (SwitchColumn h col)
  with assms show ?thesis
    by (auto simp: renderHistogramChart_def Let_def sound_destroy_only sound_destroy_construct
        split: if_splits prod.splits)
next
  case (DisplayScatter session d)
  with assms show ?thesis
    by (auto simp: displayScatterPlot_def renderScatterChart_def Let_def sound_Nil sound_Html
        sound_destroy_only sound_destroy_Html sound_destroy_construct
        split: if_splits prod.splits)
next
  case (SwitchAxis rows x y)
  with assms show ?thesis
    by (auto simp: renderScatterChart_def Let_def sound_destroy_only sound_destroy_construct
        split: if_splits prod.splits)
qed

lemma render_all_sound:
  "registered st L \<Longrightarrow> render_all st cs = (st', evs) \<Longrightarrow> sound st L st' evs"
proof (induction cs arbitrary: st L st' evs)
  case Nil
  then show ?case by (simp add: sound_Nil)
next
  case (Cons c cs)
  obtain st1 e1 t1 where r: "render st c = (st1, e1, t1)"
    by (cases "render st c") auto
  obtain st2 e2 where rs: "render_all st1 cs = (st2, e2)"
    by (cases "render_all st1 cs") auto
  from Cons.prems(2) r rs have eq: "st' = st2" "evs = e1 @ e2"
    by simp_all
  from render_sound [OF Cons.prems(1) r] have s1: "sound st L st1 e1" .
  from Cons.IH [OF sound_registered [OF s1] rs] have "sound st1 (live_after L e1) st2 e2" .
  with s1 eq show ?case by (simp add: sound_append)
qed

lemma render_constructs:
  assumes "registered st L" and "render st c = (st', evs, thrown)" and "list_ex is_ChartCreate evs"
  shows "slot_live (render_slot c) (live_after L evs) = [(render_slot c, next_id st)]"
proof -
  have quiet: "\<not> list_ex is_ChartCreate (destroy st slot)" for slot
    by (simp add: destroy_def split: option.splits)
  show ?thesis
  proof (cases c)
    case (ColumnDistribution stats)
    with assms quiet [of "''chart1''"] show ?thesis
      by (auto simp: createColumnDistributionChart_part000_def Let_def sound_destroy_construct
          split: if_splits prod.splits)
  next
    case (DataType stats)
    with assms quiet [of "''chart2''"] show ?thesis
      by (auto simp: createDataTypeChart_part000_def Let_def sound_destroy_construct
          split: if_splits prod.splits)
  next
    case (SampleHistogram d)
    with assms quiet [of "''chart3''"] show ?thesis
      by (auto simp: createSampleHistogram_part000_def Let_def sound_destroy_construct
          split: if_splits option.splits list.splits prod.splits)
  next
    case (ScatterPlot d)
    with assms quiet [of "''chart3''"] show ?thesis
      by (auto simp: createScatterPlot_part000_def Let_def sound_destroy_construct
          split: if_splits option.splits jsref.splits prod.splits)
  next
    case (DisplayHistogram d)
    with assms quiet [of "''histogram-chart''"] show ?thesis
      by (auto simp: displayHistogram_def renderHistogramChart_def Let_def sound_destroy_construct
          split: if_splits list.splits prod.splits)
  next
    case (SwitchColumn h col)
    with assms quiet [of "''histogram-chart''"] show ?thesis
      by (auto simp: renderHistogramChart_def Let_def sound_destroy_construct
          split: if_splits prod.splits)
  next
    case (DisplayScatter session d)
    with assms quiet [of "''scatter-chart''"] show ?thesis
      by (auto simp: displayScatterPlot_def renderScatterChart_def Let_def sound_destroy_construct
          split: if_splits prod.splits)
  next
    case (SwitchAxis rows x y)
    with assms quiet [of "''scatter-chart''"] show ?thesis
      by (auto simp: renderScatterChart_def Let_def sound_destroy_construct
          split: if_splits prod.splits)
  qed
qed

lemma slot_live_quiet: "slot_live slot (live_after L (evs @ [Alert m])) = slot_live slot (live_after L evs)"
  "slot_live slot (live_after L (evs @ [Html a b])) = slot_live slot (live_after L evs)"
  by (simp_all add: live_after_def)

lemma render_bails_out:
  assumes "registered st L" and "render st c = (st', evs, thrown)" and "\<not> list_ex is_ChartCreate evs"
    and "render_slot c \<in> set (canvases st)" and "\<not> is_DisplayScatter c"
  shows "slot_live (render_slot c) (live_after L evs) = []"
proof -
  have built: "construct st slot cfg = (s', e') \<Longrightarrow> list_ex is_ChartCreate (d @ e')" for slot cfg s' e' d
    by (auto simp: construct_def)
  note d = sound_destroy [OF assms(1), THEN conjunct2]
  show ?thesis
  proof (cases c)
    case (ColumnDistribution stats)
    with assms d [of "''chart1''"] show ?thesis
      by (auto simp: createColumnDistributionChart_part000_def Let_def dest: built
          split: if_splits prod.splits)
  next
    case (DataType stats)
    with assms d [of "''chart2''"] show ?thesis
      by (auto simp: createDataTypeChart_part000_def Let_def dest: built
          split: if_splits prod.splits)
  next
    case (SampleHistogram x)
    with assms d [of "''chart3''"] show ?thesis
      by (auto simp: createSampleHistogram_part000_def Let_def slot_live_quiet dest: built
          split: if_splits option.splits list.splits prod.splits)
  next
    case (ScatterPlot x)
    with assms d [of "''chart3''"] show ?thesis
      by (auto simp: createScatterPlot_part000_def Let_def slot_live_quiet dest: built
          split: if_splits option.splits jsref.splits prod.splits)
  next
    case (DisplayHistogram x)
    with assms d [of "''histogram-chart''"] show ?thesis
      by (auto simp: displayHistogram_def renderHistogramChart_def Let_def slot_live_quiet dest: built
          split: if_splits list.splits prod.splits)
  next
    case (SwitchColumn h col)
    with assms d [of "''histogram-chart''"] show ?thesis
      by (auto simp: renderHistogramChart_def Let_def slot_live_quiet dest: built
          split: if_splits prod.splits)
  next
    case (DisplayScatter session x)
    with assms show ?thesis by simp
  next
    case (SwitchAxis rows x y)
    with assms d [of "''scatter-chart''"] show ?thesis
      by (auto simp: renderScatterChart_def Let_def slot_live_quiet dest: built
          split: if_splits prod.splits)
  qed
qed

lemma registered_initial: "registered initial_charts []"
  by (simp add: registered_def initial_charts_def slot_live_def)

text \<open>
  C2 as stated fails: a rendering that finds no data destroys the chart of its slot and
  constructs none, so the slot is left without a chart.
\<close>

theorem render_without_data_leaves_no_chart:
  "snd (render_all initial_charts [SampleHistogram (Some [(''age'', example_hist)]), SampleHistogram None])
     = [ChartCreate ''chart3'' 0 (BarChart ''Frequency of age'' [''0-10'', ''10-20''] [Num 4, Num 6]),
        ChartDestroy 0, Alert ''No histogram data available.'']
   \<and> live_in ''chart3'' (live_after []
         (snd (render_all initial_charts [SampleHistogram (Some [(''age'', example_hist)]), SampleHistogram None])))
       = 0"
  by (simp add: createSampleHistogram_part000_def initial_charts_def example_hist_def destroy_def
      construct_def live_after_def live_in_def)

text \<open>
  \<open>createCategoricalChart\<close> is not among the renderings above: it constructs the chart of
  \<open>chart3\<close> without destroying the one its variable names, which stays alive.
\<close>

lemma createCategoricalChart_keeps_old_chart:
  "fst (snd (createCategoricalChart_part000 one_chart [(''city'', [(''Oslo'', Num 3)])]))
     = [ChartCreate ''chart3'' 1 (BarChart ''Top Values in city'' [''Oslo''] [Num 3])]
   \<and> live_in ''chart3'' (live_after [(''chart3'', 0)]
         (fst (snd (createCategoricalChart_part000 one_chart [(''city'', [(''Oslo'', Num 3)])])))) = 2"
  by (simp add: createCategoricalChart_part000_def one_chart_def construct_def live_after_def live_in_def)

text \<open>
  With fewer than two numeric columns \<open>displayScatterPlot\<close> removes the canvas and leaves
  the chart of the slot alive.
\<close>

lemma displayScatterPlot_keeps_old_chart:
  "displayScatterPlot scatter_drawn age_fare_state empty_scatter
     = (scatter_drawn\<lparr> canvases := [''chart1'', ''chart2'', ''chart3'', ''histogram-chart''] \<rparr>,
        [Html ''scatter-chart'' ''Need at least two numeric columns for scatter plot''], None)
   \<and> live_in ''scatter-chart'' (live_after [(''scatter-chart'', 0)]
         (fst (snd (displayScatterPlot scatter_drawn age_fare_state empty_scatter)))) = 1"
  by (simp add: displayScatterPlot_def scatter_drawn_def age_fare_state_def empty_scatter_def
      live_after_def live_in_def)

text \<open>
  C2, amended. For every chart slot of the first script and of \<open>app.js\<close>, rendered by
  the calls above: at every moment of any sequence of renderings at most one chart is
  alive in a slot, the chart of before being destroyed before the new one is constructed;
  after a rendering that constructs a chart exactly one is alive in its slot; and after a
  rendering other than \<open>displayScatterPlot\<close> that constructs none, with its canvas in the
  page, none is.
\<close>

theorem one_chart_per_slot:
  assumes "render_all initial_charts cs = (st1, e1)" and "render st1 c = (st2, e2, thrown)"
  shows "peak slot [] (e1 @ e2) \<le> 1
       \<and> (list_ex is_ChartCreate e2 \<longrightarrow> live_in (render_slot c) (live_after [] (e1 @ e2)) = 1)
       \<and> (\<not> list_ex is_ChartCreate e2 \<and> render_slot c \<in> set (canvases st1) \<and> \<not> is_DisplayScatter c
            \<longrightarrow> live_in (render_slot c) (live_after [] (e1 @ e2)) = 0)"
proof -
  from render_all_sound [OF registered_initial assms(1)]
  have s1: "sound initial_charts [] st1 e1" .
  then have reg: "registered st1 (live_after [] e1)"
    by (rule sound_registered)
  from render_sound [OF reg assms(2)] have s2: "sound st1 (live_after [] e1) st2 e2" .
  from sound_append [OF s1 s2] have "peak slot [] (e1 @ e2) \<le> 1"
    by (simp add: sound_def)
  moreover have "live_in (render_slot c) (live_after [] (e1 @ e2)) = 1" if "list_ex is_ChartCreate e2"
    using render_constructs [OF reg assms(2) that]
    by (simp add: live_in_slot_live live_after_append)
  moreover have "live_in (render_slot c) (live_after [] (e1 @ e2)) = 0"
    if "\<not> list_ex is_ChartCreate e2" and "render_slot c \<in> set (canvases st1)" and "\<not> is_DisplayScatter c"
    using render_bails_out [OF reg assms(2) that]
    by (simp add: live_in_slot_live live_after_append)
  ultimately show ?thesis by blast
qed

theorem one_chart_per_slot_witness:
  "render_all initial_charts [SampleHistogram (Some [(''age'', example_hist)])]
     = (one_chart, [ChartCreate ''chart3'' 0 (BarChart ''Frequency of age'' [''0-10'', ''10-20''] [Num 4, Num 6])])
   \<and> render one_chart (ScatterPlot (Obj full_scatter))
     = (second_chart, [ChartDestroy 0,
                       ChartCreate ''chart3'' 1 (ScatterChart ''fare vs age'' [(NumCell (Num 31), NumCell (Num 0))])],
        None)
   \<and> peak ''chart3'' []
        [ChartCreate ''chart3'' 0 (BarChart ''Frequency of age'' [''0-10'', ''10-20''] [Num 4, Num 6]),
         ChartDestroy 0,
         ChartCreate ''chart3'' 1 (ScatterChart ''fare vs age'' [(NumCell (Num 31), NumCell (Num 0))])] \<le> 1
   \<and> live_in ''chart3'' (live_after []
        [ChartCreate ''chart3'' 0 (BarChart ''Frequency of age'' [''0-10'', ''10-20''] [Num 4, Num 6]),
         ChartDestroy 0,
         ChartCreate ''chart3'' 1 (ScatterChart ''fare vs age'' [(NumCell (Num 31), NumCell (Num 0))])]) = 1"
proof -
  have a: "render_all initial_charts [SampleHistogram (Some [(''age'', example_hist)])]
     = (one_chart, [ChartCreate ''chart3'' 0 (BarChart ''Frequency of age'' [''0-10'', ''10-20''] [Num 4, Num 6])])"
    by (simp add: createSampleHistogram_part000_def initial_charts_def example_hist_def destroy_def
        construct_def one_chart_def)
  have b: "render one_chart (ScatterPlot (Obj full_scatter))
     = (second_chart, [ChartDestroy 0,
                       ChartCreate ''chart3'' 1 (ScatterChart ''fare vs age'' [(NumCell (Num 31), NumCell (Num 0))])],
        None)"
    by (simp add: createScatterPlot_part000_def one_chart_def second_chart_def full_scatter_def
        destroy_def construct_def field_def)
  from one_chart_per_slot [OF a b, of "''chart3''"] a b show ?thesis
    by simp
qed

section \<open>What the outliers renderers write\<close>

lemma toFixed_two_signed:
  assumes "\<bar>x\<bar> < 10 ^ 21"
  shows "toFixed sh 2 (Num x) = (if x < 0 then ''-'' else '''') @ two_decimals \<bar>x\<bar>"
proof (cases "x < 0")
  case True
  then have "toFixed sh 2 (Num x) = ''-'' @ toFixed sh 2 (Num (- x))"
    by (simp add: toFixed_def Let_def)
  moreover from True assms have "toFixed sh 2 (Num (- x)) = two_decimals (- x)"
    by (intro toFixed_two) simp_all
  ultimately show ?thesis
    using True by simp
next
  case False
  with assms have "toFixed sh 2 (Num x) = two_decimals x"
    by (intro toFixed_two) simp_all
  with False show ?thesis
    by simp
qed

lemma rnd_12345: "rnd (12345 / 1000) = Num (6949617174986097 / 562949953421312)"
  by code_simp

lemma two_decimals_12345: "two_decimals (6949617174986097 / 562949953421312) = ''12.35''"
  by code_simp

lemma numberToString_small: "numberToString sh (Num 3) = ''3''"
  "numberToString sh (Num 1) = ''1''" "numberToString sh (Num 2) = ''2''"
  "numberToString sh (Num 4) = ''4''" "numberToString sh (Num 5) = ''5''"
  "numberToString sh (Num 6) = ''6''" "numberToString sh (Num 7) = ''7''"
  by (simp_all add: numberToString_def show_nat_small digit_def)

text \<open>
  C6 as stated fails for \<open>script (11).js\<close>: its renderer joins all the outlier values,
  not the first five.
\<close>

theorem displayOutliers_script11_lists_all:
  "displayOutliers_script11 (\<lambda>_. []) (Some [(''age'', \<lparr>count = Num 6, percentage = Num (25 / 2),
        outlier_values = [Num 1, Num 2, Num 3, Num 4, Num 5, Num 6]\<rparr>)])
     = Cards [\<lparr> item_class = ''insight-item border-warning text-warning bg-warning-light'',
                item_title = ''Outliers in age'',
                item_description = ''Found 6 outliers (12.50%): 1, 2, 3, 4, 5, 6'' \<rparr>]"
proof -
  have "toFixed (\<lambda>_. []) 2 (Num (25 / 2)) = ''12.50''"
    by code_simp
  then show ?thesis
    by (simp add: displayOutliers_script11_def numberToString_small)
qed

text \<open>
  C6, amended. For a report with at least one column both renderers emit one card per
  column, in the order of the columns. For a column whose percentage is a finite number
  below \<open>10^21\<close> in magnitude, the card of \<open>app.js\<close> bears the column's name and holds the
  count, the percentage rounded to two decimals and the first five outlier values at
  most; the item of \<open>script (11).js\<close> bears the column's name and holds the count, the
  percentage rounded to two decimals and all the outlier values. For the count 3 and the
  percentage 12.345 the renderer of \<open>app.js\<close> writes "3 outliers (12.35%)", as the
  instance below shows.
\<close>

theorem displayOutliers_cards:
  assumes "i < length report" and "report ! i = (column, d)"
    and "percentage d = Num p" and "\<bar>p\<bar> < 10 ^ 21"
  shows "\<exists>cs items.
           displayOutliers_app sh report = Cards cs \<and> length cs = length report
         \<and> displayOutliers_script11 sh (Some report) = Cards items \<and> length items = length report
         \<and> h4_text (cs ! i) = column
         \<and> stat_value (cs ! i)
             = numberToString sh (count d) @ '' outliers (''
                 @ (if p < 0 then ''-'' else '''') @ two_decimals \<bar>p\<bar> @ ''%)''
         \<and> stat_description (cs ! i)
             = ''<strong>Sample values:</strong> ''
                 @ join '', '' (map (numberToString sh) (take 5 (outlier_values d)))
         \<and> length (take 5 (outlier_values d)) \<le> 5
         \<and> item_title (items ! i) = ''Outliers in '' @ column
         \<and> item_description (items ! i)
             = ''Found '' @ numberToString sh (count d) @ '' outliers (''
                 @ (if p < 0 then ''-'' else '''') @ two_decimals \<bar>p\<bar> @ ''%): ''
                 @ join '', '' (map (numberToString sh) (outlier_values d))"
proof -
  define item where "item = (\<lambda>(col, d :: outlier_info).
                 \<lparr> item_class = ''insight-item border-warning text-warning bg-warning-light'',
                   item_title = ''Outliers in '' @ col,
                   item_description = ''Found '' @ numberToString sh (count d) @ '' outliers (''
                       @ toFixed sh 2 (percentage d) @ ''%): ''
                       @ join '', '' (map (numberToString sh) (outlier_values d)) \<rparr>)"
  from assms(1) have ne: "report \<noteq> []"
    by auto
  then have cs: "displayOutliers_app sh report = Cards (map (outlierCard sh) report)"
    by (simp add: displayOutliers_app_def)
  from ne have items: "displayOutliers_script11 sh (Some report) = Cards (map item report)"
    by (simp add: displayOutliers_script11_def item_def)
  have pct: "toFixed sh 2 (percentage d) = (if p < 0 then ''-'' else '''') @ two_decimals \<bar>p\<bar>"
    using assms(3,4) by (simp only: toFixed_two_signed)
  have card: "map (outlierCard sh) report ! i = outlierCard sh (column, d)"
    and it: "map item report ! i = item (column, d)"
    using assms(1,2) by simp_all
  have 1: "h4_text (map (outlierCard sh) report ! i) = column"
    and 2: "stat_value (map (outlierCard sh) report ! i)
             = numberToString sh (count d) @ '' outliers (''
                 @ (if p < 0 then ''-'' else '''') @ two_decimals \<bar>p\<bar> @ ''%)''"
    and 3: "stat_description (map (outlierCard sh) report ! i)
             = ''<strong>Sample values:</strong> ''
                 @ join '', '' (map (numberToString sh) (take 5 (outlier_values d)))"
    unfolding card by (simp_all add: outlierCard_def pct)
  have 4: "item_title (map item report ! i) = ''Outliers in '' @ column"
    and 5: "item_description (map item report ! i)
             = ''Found '' @ numberToString sh (count d) @ '' outliers (''
                 @ (if p < 0 then ''-'' else '''') @ two_decimals \<bar>p\<bar> @ ''%): ''
                 @ join '', '' (map (numberToString sh) (outlier_values d))"
    unfolding it by (simp_all add: item_def pct)
  have 6: "length (take 5 (outlier_values d)) \<le> 5"
    by simp
  from cs items 1 2 3 4 5 6 show ?thesis
    by (intro exI [of _ "map (outlierCard sh) report"] exI [of _ "map item report"]) simp
qed

theorem displayOutliers_cards_witness:
  "0 < length example_report
   \<and> example_report ! 0 = (''age'', \<lparr>count = Num 3, percentage = rnd (12345 / 1000),
                                     outlier_values = [Num 1, Num 2, Num 3, Num 4, Num 5, Num 6]\<rparr>)
   \<and> rnd (12345 / 1000) = Num (6949617174986097 / 562949953421312)
   \<and> \<bar>6949617174986097 / 562949953421312 :: rat\<bar> < 10 ^ 21
   \<and> (\<exists>cs items.
         displayOutliers_app (\<lambda>_. []) example_report = Cards cs \<and> length cs = 2
       \<and> displayOutliers_script11 (\<lambda>_. []) (Some example_report) = Cards items \<and> length items = 2
       \<and> h4_text (cs ! 0) = ''age''
       \<and> stat_value (cs ! 0) = ''3 outliers (12.35%)''
       \<and> stat_description (cs ! 0) = ''<strong>Sample values:</strong> 1, 2, 3, 4, 5''
       \<and> item_title (items ! 0) = ''Outliers in age''
       \<and> item_description (items ! 0) = ''Found 3 outliers (12.35%): 1, 2, 3, 4, 5, 6'')"
proof -
  let ?d = "\<lparr>count = Num 3, percentage = rnd (12345 / 1000),
             outlier_values = [Num 1, Num 2, Num 3, Num 4, Num 5, Num 6]\<rparr>"
  let ?sh = "\<lambda>_ :: rat. [] :: string"
  have a: "0 < length example_report" and l: "length example_report = 2"
    by (simp_all add: example_report_def)
  have b: "example_report ! 0 = (''age'', ?d)"
    by (simp add: example_report_def)
  have c: "percentage ?d = Num (6949617174986097 / 562949953421312)"
    using rnd_12345 by simp
  have e: "\<bar>6949617174986097 / 562949953421312 :: rat\<bar> < 10 ^ 21"
    by simp
  from displayOutliers_cards [OF a b c e, of ?sh] a b e l rnd_12345 two_decimals_12345 show ?thesis
    by (simp add: numberToString_small)
qed

section \<open>The missing-value percentage\<close>

text \<open>
  C8. For a payload whose missing counts and row count are natural numbers (below
  \<open>2^53\<close>, as the numbers of the language can hold them), the renderer computes the
  percentage it displays as the sum of the per-column missing counts, divided by the
  number of columns of the map times the row count, times 100, in the arithmetic of the
  language, and displays it with two decimals.
\<close>

theorem missing_percentage_formula:
  assumes "map snd (missing_values q) = map (\<lambda>c. Num (of_nat c)) cs"
    and "shape q = Num (of_nat rows) # rest"
    and "sum_list cs < 2 ^ 53" and "length cs * rows < 2 ^ 53"
  shows "missingPercentage q
           = fmul (fdiv (Num (of_nat (sum_list cs))) (Num (of_nat (length cs * rows)))) (Num 100)
       \<and> stat_value (displayDataQuality sh q ! 0)
           = numberToString sh (Num (of_nat (sum_list cs))) @ '' missing (''
               @ toFixed sh 2 (fmul (fdiv (Num (of_nat (sum_list cs))) (Num (of_nat (length cs * rows))))
                                    (Num 100)) @ ''%)''"
proof -
  have len: "length (missing_values q) = length cs"
    using assms(1) by (metis length_map)
  have mv: "missingValues q = Num (of_nat (sum_list cs))"
    using foldl_fadd_nat [of 0 cs] assms(1,3) by (simp add: missingValues_def)
  have tc: "totalCells q = Num (of_nat (length cs * rows))"
    using fmul_nat [OF assms(4)] assms(2) len by (simp add: totalCells_def del: fmul.simps)
  from mv tc show ?thesis
    by (simp add: missingPercentage_def displayDataQuality_def del: fmul.simps fdiv.simps)
qed

lemma pct_example: "fmul (fdiv (Num 1) (Num 800)) (Num 100) = Num (1 / 8)"
  by code_simp

lemma toFixed_eighth: "toFixed (\<lambda>_. []) 2 (Num (1 / 8)) = ''0.13''"
  by code_simp

theorem missing_percentage_formula_witness:
  "map snd (missing_values example_quality) = map (\<lambda>c. Num (of_nat c)) [1, 0]
   \<and> shape example_quality = Num (of_nat 400) # [Num 2]
   \<and> sum_list [1, 0 :: nat] < 2 ^ 53 \<and> length [1, 0 :: nat] * 400 < 2 ^ 53
   \<and> missingPercentage example_quality = Num (1 / 8)
   \<and> stat_value (displayDataQuality (\<lambda>_. []) example_quality ! 0) = ''1 missing (0.13%)''"
proof -
  have a: "map snd (missing_values example_quality) = map (\<lambda>c. Num (of_nat c)) [1, 0]"
    and b: "shape example_quality = Num (of_nat 400) # [Num 2]"
    by (simp_all add: example_quality_def)
  have c: "sum_list [1, 0 :: nat] < 2 ^ 53" and d: "length [1, 0 :: nat] * 400 < 2 ^ 53"
    by simp_all
  have one: "numberToString (\<lambda>_. []) (Num 1) = ''1''"
    by (simp add: numberToString_def show_nat_small digit_def)
  from missing_percentage_formula [OF a b c d, of "\<lambda>_. []"] pct_example toFixed_eighth one a b c d
  show ?thesis
    by (simp del: fmul.simps fdiv.simps)
qed

section \<open>The size of a file loses its unit\<close>

lemma digit_cases:
  "d < (10 :: nat) \<Longrightarrow> d = 0 \<or> d = 1 \<or> d = 2 \<or> d = 3 \<or> d = 4 \<or> d = 5 \<or> d = 6 \<or> d = 7 \<or> d = 8 \<or> d = 9"
  by arith

lemma is_digit_digit: "d < 10 \<Longrightarrow> is_digit (digit d)"
  using digit_cases [of d] by (auto simp: is_digit_def digit_def)

lemma digit_val_digit: "d < 10 \<Longrightarrow> digit_val (digit d) = d"
  using digit_cases [of d] by (auto simp: digit_val_def digit_def)

lemma is_digit_plain:
  "is_digit c \<Longrightarrow> \<not> is_ws c \<and> c \<noteq> CHR ''-'' \<and> c \<noteq> CHR ''+'' \<and> c \<noteq> CHR ''I'' \<and> c \<noteq> CHR ''.''"
  by (auto simp: is_digit_def is_ws_def)

lemma show_nat_digits: "c \<in> set (show_nat k) \<Longrightarrow> is_digit c"
proof (induction k arbitrary: c rule: show_nat.induct)
  case (1 n)
  show ?case
  proof (cases "n < 10")
    case True
    with "1.prems" show ?thesis
      by (simp add: show_nat_small is_digit_digit)
  next
    case False
    then have "10 \<le> n" by simp
    with "1.prems" have "c \<in> set (show_nat (n div 10)) \<or> c = digit (n mod 10)"
      by (auto simp: show_nat_step)
    with "1.IH" False show ?thesis
      by (auto simp: is_digit_digit)
  qed
qed

lemma digits_val_snoc: "digits_val (s @ [c]) = 10 * digits_val s + digit_val c"
  by (simp add: digits_val_def)

lemma digits_val_show_nat: "digits_val (show_nat k) = k"
proof (induction k rule: show_nat.induct)
  case (1 n)
  show ?case
  proof (cases "n < 10")
    case True
    then show ?thesis
      by (simp add: show_nat_small digits_val_def digit_val_digit)
  next
    case False
    then have "10 \<le> n" by simp
    with "1.IH" False show ?thesis
      by (simp add: show_nat_step digits_val_snoc digit_val_digit)
  qed
qed

text \<open>Reading back digits, a point, digits and a space.\<close>

lemma parse_unsigned_decimal:
  assumes "ip \<noteq> []" and "\<And>x. x \<in> set ip \<Longrightarrow> is_digit x" and "\<And>x. x \<in> set fp \<Longrightarrow> is_digit x"
  shows "parse_unsigned (ip @ CHR ''.'' # fp @ CHR '' '' # unit)
           = rnd (of_nat (digits_val (ip @ fp)) / 10 ^ length fp)"
proof -
  let ?tail = "CHR ''.'' # fp @ CHR '' '' # unit"
  obtain c cs where ip: "ip = c # cs"
    using assms(1) by (cases ip) auto
  then have "c \<noteq> CHR ''I''"
    using assms(2) [of c] is_digit_plain [of c] by simp
  then have inf: "take 8 (ip @ ?tail) \<noteq> ''Infinity''"
    by (auto simp: ip)
  have nd: "\<not> is_digit (CHR ''.'')" "\<not> is_digit (CHR '' '')"
    by (simp_all add: is_digit_def)
  have tw: "takeWhile is_digit (ip @ ?tail) = ip"
    using assms(2) nd by simp
  have dw: "dropWhile is_digit (ip @ ?tail) = ?tail"
    using assms(2) nd by simp
  have fr: "fraction_part ?tail = (fp, CHR '' '' # unit)"
    using assms(3) nd by (simp add: fraction_part_def)
  have ex: "exponent_part (CHR '' '' # unit) = 0"
    by (simp add: exponent_part_def)
  show ?thesis
    unfolding parse_unsigned_def Let_def tw dw fr
    using inf assms(1) by (simp add: ex pow10_def)
qed

lemma parseFloat_decimal:
  assumes "ip \<noteq> []" and "\<And>x. x \<in> set ip \<Longrightarrow> is_digit x" and "\<And>x. x \<in> set fp \<Longrightarrow> is_digit x"
  shows "parseFloat (ip @ CHR ''.'' # fp @ CHR '' '' # unit)
           = rnd (of_nat (digits_val (ip @ fp)) / 10 ^ length fp)"
proof -
  let ?tail = "CHR ''.'' # fp @ CHR '' '' # unit"
  obtain c cs where ip: "ip = c # cs"
    using assms(1) by (cases ip) auto
  then have c: "is_digit c"
    using assms(2) by simp
  have "dropWhile is_ws (ip @ ?tail) = ip @ ?tail"
    using is_digit_plain [OF c] by (simp add: ip)
  moreover have "strip_sign (ip @ ?tail) = (False, ip @ ?tail)"
    using is_digit_plain [OF c] by (simp add: ip strip_sign_def)
  ultimately show ?thesis
    by (simp add: parseFloat_def parse_unsigned_decimal [OF assms])
qed

lemma parseFloat_two_decimals:
  assumes "d1 < 10" and "d0 < 10"
  shows "parseFloat (show_nat k @ ''.'' @ [digit d1, digit d0] @ '' '' @ unit)
           = rnd (of_nat (k * 100 + d1 * 10 + d0) / 100)"
proof -
  have val: "digits_val (show_nat k @ [digit d1, digit d0]) = k * 100 + d1 * 10 + d0"
  proof -
    have "digits_val ((show_nat k @ [digit d1]) @ [digit d0]) = k * 100 + d1 * 10 + d0"
      using assms by (simp only: digits_val_snoc digits_val_show_nat digit_val_digit) simp
    then show ?thesis by simp
  qed
  have fp: "\<And>x. x \<in> set [digit d1, digit d0] \<Longrightarrow> is_digit x"
    using assms by (auto simp: is_digit_digit)
  from parseFloat_decimal [where ip = "show_nat k" and fp = "[digit d1, digit d0]" and unit = unit,
      OF show_nat_nonempty show_nat_digits fp]
  show ?thesis
    by (simp add: val)
qed

text \<open>The value that is printed, when it is below \<open>10^21\<close>, is read back without its unit.\<close>

lemma formatFileSize_value:
  assumes "0 < bytes"
    and "fdiv (Num (of_nat bytes)) (rnd (1024 ^ floor_log bytes)) = Num x"
    and "0 \<le> x" and "x < 10 ^ 21"
  shows "formatFileSize sh floor_log 0 = JStr ''0 Bytes''
       \<and> formatFileSize sh floor_log bytes = JNum (rnd (of_nat (nat \<lfloor>x * 100 + 1 / 2\<rfloor>) / 100))
       \<and> formatFileSize sh floor_log bytes = JNum (parseFloat (two_decimals x @ '' ''))"
proof -
  define n where "n = nat \<lfloor>x * 100 + 1 / 2\<rfloor>"
  have n: "n div 100 * 100 + n div 10 mod 10 * 10 + n mod 10 = n"
  proof -
    define w where "w = n div 10"
    define u where "u = w div 10"
    define y where "y = w mod 10"
    define z where "z = n mod 10"
    have 1: "w = u * 10 + y" unfolding u_def y_def by simp
    have 2: "n = w * 10 + z" unfolding w_def z_def by simp
    have 3: "n div 100 = u" unfolding u_def w_def by (simp add: div_mult2_eq [symmetric])
    have "u * 100 + y * 10 + z = n" using 1 2 by linarith
    then show ?thesis unfolding 3 y_def z_def w_def .
  qed
  have td: "two_decimals x = show_nat (n div 100) @ ''.'' @ [digit (n div 10 mod 10), digit (n mod 10)]"
    by (simp add: two_decimals_def n_def Let_def)
  have reread: "parseFloat (two_decimals x @ '' '' @ unit) = rnd (of_nat n / 100)" for unit
    using parseFloat_two_decimals [of "n div 10 mod 10" "n mod 10" "n div 100" unit]
    by (simp add: td n del: of_nat_add of_nat_mult)
  have "formatFileSize sh floor_log bytes = JNum (rnd (of_nat n / 100))"
    using assms reread by (simp add: formatFileSize_def Let_def toFixed_two del: fdiv.simps)
  moreover have "parseFloat (two_decimals x @ '' '') = rnd (of_nat n / 100)"
    using reread [of "[]"] by simp
  ultimately show ?thesis
    by (simp add: n_def formatFileSize_def)
qed

lemma rnd_samples: "rnd 1024 = Num 1024" "rnd (3 / 2) = Num (3 / 2)"
  by code_simp+

lemma size_1536: "fdiv (Num (of_nat 1536)) (rnd (1024 ^ kilo_log 1536)) = Num (3 / 2)"
  by (simp add: kilo_log_def rnd_samples)

lemma hundredths_150: "\<lfloor>(301 / 2 :: rat)\<rfloor> = 150"
  by code_simp

text \<open>The scaled size of a file is a finite number below \<open>10^21\<close>.\<close>

lemma scaled_size:
  assumes "0 < bytes" and "bytes < 2 ^ 53"
  obtains x where "fdiv (Num (of_nat bytes)) (rnd (1024 ^ i)) = Num x" and "0 \<le> x" and "x < 10 ^ 21"
proof -
  have p: "(1024 :: rat) ^ i = 2 ^ (10 * i)"
    by (simp add: power_mult)
  show ?thesis
  proof (cases "1024 \<le> 10 * i")
    case True
    then have "fdiv (Num (of_nat bytes)) (rnd (1024 ^ i)) = Num 0"
      by (simp add: p rnd_power_of_two)
    then show ?thesis
      using that [of 0] by simp
  next
    case False
    define y :: rat where "y = of_nat bytes / 2 ^ (10 * i)"
    have "(1 :: rat) \<le> 2 ^ (10 * i)"
      by simp
    then have "(of_nat bytes :: rat) / 2 ^ (10 * i) \<le> of_nat bytes / 1"
      by (intro divide_left_mono) simp_all
    then have "of_nat bytes / 2 ^ (10 * i) \<le> (of_nat bytes :: rat)"
      by simp
    moreover have "(of_nat bytes :: rat) < 2 ^ 53"
      using assms(2) by (metis of_nat_less_iff of_nat_numeral of_nat_power)
    ultimately have y53: "y < 2 ^ 53"
      by (simp add: y_def)
    have ypos: "0 < y"
      using assms(1) by (simp add: y_def)
    have "(2 :: rat) ^ 53 \<le> pow2 1022"
      by (simp add: pow2_def)
    with y53 have "y \<le> pow2 1022"
      by simp
    from rnd_finite [OF ypos this] obtain x where x: "rnd y = Num x" "0 \<le> x" "x \<le> 2 * y + 1"
      by blast
    have "fdiv (Num (of_nat bytes)) (rnd (1024 ^ i)) = Num x"
      using False x(1) by (simp add: p rnd_power_of_two y_def)
    moreover have "x < 10 ^ 21"
      using x(3) y53 by simp
    ultimately show ?thesis
      using that [of x] x(2) by simp
  qed
qed

text \<open>
  C10. \<open>formatFileSize\<close> returns the string "0 Bytes" for 0. For a size above 0 (and
  below \<open>2^53\<close>, as a number of the language holds it) it applies \<open>parseFloat\<close> to the
  two-decimal value followed by a space and the unit, so it returns a number, the scaled
  size rounded to two decimals, and the unit is lost: the result is what \<open>parseFloat\<close>
  reads from the two-decimal value alone.
\<close>

theorem formatFileSize_strips_unit:
  assumes "0 < bytes" and "bytes < 2 ^ 53"
  shows "formatFileSize sh floor_log 0 = JStr ''0 Bytes''
       \<and> (\<exists>x. 0 \<le> x
              \<and> fdiv (Num (of_nat bytes)) (rnd (1024 ^ floor_log bytes)) = Num x
              \<and> formatFileSize sh floor_log bytes
                   = JNum (rnd (of_nat (nat \<lfloor>x * 100 + 1 / 2\<rfloor>) / 100))
              \<and> formatFileSize sh floor_log bytes = JNum (parseFloat (two_decimals x @ '' '')))"
proof -
  from scaled_size [OF assms, of "floor_log bytes"] obtain x
    where x: "fdiv (Num (of_nat bytes)) (rnd (1024 ^ floor_log bytes)) = Num x" "0 \<le> x" "x < 10 ^ 21"
    by blast
  from formatFileSize_value [where bytes = bytes and floor_log = floor_log and x = x and sh = sh,
      OF assms(1) x] x(1,2) show ?thesis
    by blast
qed

theorem formatFileSize_strips_unit_witness:
  "(0 :: nat) < 1536 \<and> (1536 :: nat) < 2 ^ 53
   \<and> formatFileSize (\<lambda>_. []) kilo_log 0 = JStr ''0 Bytes''
   \<and> formatFileSize (\<lambda>_. []) kilo_log 1536 = JNum (Num (3 / 2))"
proof -
  have a: "(0 :: nat) < 1536" and b: "(1536 :: nat) < 2 ^ 53"
    by simp_all
  from formatFileSize_strips_unit [OF a b, of "\<lambda>_. []" kilo_log]
  obtain x where zero: "formatFileSize (\<lambda>_. []) kilo_log 0 = JStr ''0 Bytes''"
    and x: "fdiv (Num (of_nat 1536)) (rnd (1024 ^ kilo_log 1536)) = Num x"
    and f: "formatFileSize (\<lambda>_. []) kilo_log 1536 = JNum (rnd (of_nat (nat \<lfloor>x * 100 + 1 / 2\<rfloor>) / 100))"
    by blast
  from x size_1536 have "x = 3 / 2"
    by simp
  with f have "formatFileSize (\<lambda>_. []) kilo_log 1536 = JNum (Num (3 / 2))"
    by (simp add: hundredths_150 rnd_samples)
  with zero a b show ?thesis
    by simp
qed

end
